theory Spec2Isabelle
  imports
    Main
    "HOL-Library.Char_ord"
    "HOL-Library.List_Lexorder"
begin

chapter \<open>An application-generation orchestrator: validator, context memory, ports, preview\<close>

text \<open>
  The development embeds the Python sources of the backend as HOL functions and proves
  properties of them. Python \<open>str\<close> values are modelled as \<^typ>\<open>string\<close>, a character
  standing for the code point of its number; the model covers text whose code points
  are below 256. Exceptions are values of a sum type, \<open>Inl\<close> carrying the exception. Where Python leaves the order of a
  \<open>set\<close> unspecified (\<open>list(set(xs))\<close>), the model uses \<^const>\<open>remdups\<close> and the
  theorems speak of \<^const>\<open>set\<close> and \<^const>\<open>distinct\<close> only.
\<close>

section \<open>Python string operations\<close>

text \<open>\<open>s.startswith(p)\<close> and \<open>s.endswith(p)\<close>.\<close>

fun startswith :: "string \<Rightarrow> string \<Rightarrow> bool" where
  "startswith s [] = True"
| "startswith [] (p # ps) = False"
| "startswith (c # s) (p # ps) = (c = p \<and> startswith s ps)"

definition endswith :: "string \<Rightarrow> string \<Rightarrow> bool" where
  "endswith s p = startswith (rev s) (rev p)"

text \<open>\<open>s.split(sep)\<close> for a one-character separator: never the empty list.\<close>

fun py_split :: "char \<Rightarrow> string \<Rightarrow> string list" where
  "py_split sep [] = [[]]"
| "py_split sep (c # cs) =
     (if c = sep then [] # py_split sep cs
      else (case py_split sep cs of
              w # ws \<Rightarrow> (c # w) # ws
            | [] \<Rightarrow> [[c]]))"

text \<open>\<open>sep.join(ws)\<close>.\<close>

fun py_join :: "string \<Rightarrow> string list \<Rightarrow> string" where
  "py_join sep [] = []"
| "py_join sep [w] = w"
| "py_join sep (w # v # ws) = w @ sep @ py_join sep (v # ws)"

text \<open>\<open>str(n)\<close> for a non-negative integer.\<close>

definition digit_char :: "nat \<Rightarrow> char" where
  "digit_char d = ''0123456789'' ! d"

function str_nat :: "nat \<Rightarrow> string" where
  "str_nat n = (if n < 10 then [digit_char n] else str_nat (n div 10) @ [digit_char (n mod 10)])"
  by pat_completeness auto
termination
  by (relation "measure id") auto

text \<open>
  The character classes of Python's \<open>re\<close> for \<open>str\<close> patterns, which follow Unicode,
  on the code points below 256. \<open>\s\<close> is what \<open>str.isspace\<close> accepts: TAB to CR, FS to
  US, the space, NEL (0x85) and the no-break space (0xA0). \<open>\w\<close> is the underscore and
  what \<open>str.isalnum\<close> accepts: the ASCII letters and digits, the letters of Latin-1
  (0xAA, 0xB5, 0xBA, 0xC0 to 0xFF without the two operators 0xD7 and 0xF7) and its
  numeric characters (the superscripts 0xB2, 0xB3, 0xB9 and the fractions 0xBC to 0xBE).
\<close>

definition is_space :: "char \<Rightarrow> bool" where
  "is_space c = (let n = (of_char c :: nat) in
     (9 \<le> n \<and> n \<le> 13) \<or> (28 \<le> n \<and> n \<le> 32) \<or> n = 0x85 \<or> n = 0xA0)"

definition is_word :: "char \<Rightarrow> bool" where
  "is_word c = (let n = (of_char c :: nat) in
     (48 \<le> n \<and> n \<le> 57) \<or> (65 \<le> n \<and> n \<le> 90) \<or> n = 95 \<or> (97 \<le> n \<and> n \<le> 122) \<or>
     n = 0xAA \<or> n = 0xB2 \<or> n = 0xB3 \<or> n = 0xB5 \<or> n = 0xB9 \<or> n = 0xBA \<or>
     (0xBC \<le> n \<and> n \<le> 0xBE) \<or> (0xC0 \<le> n \<and> n \<le> 0xD6) \<or>
     (0xD8 \<le> n \<and> n \<le> 0xF6) \<or> (0xF8 \<le> n \<and> n \<le> 0xFF))"

definition is_quote :: "char \<Rightarrow> bool" where
  "is_quote c = (c = CHR 0x22 \<or> c = CHR 0x27)"

text \<open>Regex pieces, each returning the rest of the input after what it consumed.\<close>

fun lit :: "string \<Rightarrow> string \<Rightarrow> string option" where
  "lit [] s = Some s"
| "lit (p # ps) [] = None"
| "lit (p # ps) (c # s) = (if c = p then lit ps s else None)"

text \<open>\<open>X+\<close> for a character class \<open>X\<close>, greedy: the longest non-empty run.\<close>

definition many1 :: "(char \<Rightarrow> bool) \<Rightarrow> string \<Rightarrow> string option" where
  "many1 P s = (if takeWhile P s = [] then None else Some (dropWhile P s))"

section \<open>The code validator (libs/code_validator.py)\<close>

record ValidationError =
  error_type :: string
  message :: string
  line_number :: "nat option"
  column :: "nat option"
  suggestion :: "string option"

record ValidationResult =
  is_valid :: bool
  errors :: "ValidationError list"
  warnings :: "string list"
  v_imports :: "string list"

text \<open>
  The alternation \<open>(?:{[^}]+}|\w+|\*\s+as\s+\w+)\<close> of the import pattern. The three
  branches begin with different characters, so at most one can match.
\<close>

definition import_clause :: "string \<Rightarrow> string option" where
  "import_clause s =
     (case s of
        [] \<Rightarrow> None
      | c # cs \<Rightarrow>
          if c = CHR ''{'' then
            (case many1 (\<lambda>x. x \<noteq> CHR ''}'') cs of
               None \<Rightarrow> None
             | Some r \<Rightarrow> lit ''}'' r)
          else if is_word c then many1 is_word s
          else if c = CHR ''*'' then
            (case many1 is_space cs of
               None \<Rightarrow> None
             | Some r1 \<Rightarrow>
                 (case lit ''as'' r1 of
                    None \<Rightarrow> None
                  | Some r2 \<Rightarrow>
                      (case many1 is_space r2 of
                         None \<Rightarrow> None
                       | Some r3 \<Rightarrow> many1 is_word r3)))
          else None)"

text \<open>
  One attempt of
  \<open>import\s+(?:{[^}]+}|\w+|\*\s+as\s+\w+)\s+from\s+["\']([^"\']+)["\']\<close>
  at the start of \<open>s\<close>: the captured specifier and the input after the match. Every
  repetition is followed by a character outside its class, so the greedy run is the only
  candidate and no backtracking is needed.
\<close>

definition match_import :: "string \<Rightarrow> (string \<times> string) option" where
  "match_import s =
     (case lit ''import'' s of None \<Rightarrow> None | Some s1 \<Rightarrow>
      (case many1 is_space s1 of None \<Rightarrow> None | Some s2 \<Rightarrow>
       (case import_clause s2 of None \<Rightarrow> None | Some s3 \<Rightarrow>
        (case many1 is_space s3 of None \<Rightarrow> None | Some s4 \<Rightarrow>
         (case lit ''from'' s4 of None \<Rightarrow> None | Some s5 \<Rightarrow>
          (case many1 is_space s5 of None \<Rightarrow> None | Some s6 \<Rightarrow>
           (case s6 of
              [] \<Rightarrow> None
            | q # s7 \<Rightarrow>
                if \<not> is_quote q then None
                else if takeWhile (\<lambda>x. \<not> is_quote x) s7 = [] then None
                else (case dropWhile (\<lambda>x. \<not> is_quote x) s7 of
                        [] \<Rightarrow> None
                      | q' # s8 \<Rightarrow> Some (takeWhile (\<lambda>x. \<not> is_quote x) s7, s8)))))))))"

lemma lit_length: "lit p s = Some r \<Longrightarrow> length r \<le> length s"
  by (induction p s rule: lit.induct) (auto split: if_splits)

lemma many1_length: "many1 P s = Some r \<Longrightarrow> length r < length s"
proof -
  assume h: "many1 P s = Some r"
  then have ne: "takeWhile P s \<noteq> []" and r: "r = dropWhile P s"
    by (auto simp: many1_def split: if_splits)
  have "length (takeWhile P s) + length (dropWhile P s) = length s"
    by (metis length_append takeWhile_dropWhile_id)
  with ne r show ?thesis
    by (cases "takeWhile P s") auto
qed

lemma import_clause_length: "import_clause s = Some r \<Longrightarrow> length r < length s"
  unfolding import_clause_def
  by (auto split: list.splits if_splits option.splits
           dest!: many1_length lit_length)

lemma dropWhile_Cons_length: "dropWhile P s = q # r \<Longrightarrow> length r < length s"
  using length_dropWhile_le [of P s] by simp

lemma match_import_length: "match_import s = Some (g, r) \<Longrightarrow> length r < length s"
  unfolding match_import_def
  by (auto split: list.splits if_splits option.splits
           dest!: many1_length lit_length import_clause_length dropWhile_Cons_length)

text \<open>
  \<open>re.finditer(import_pattern, code)\<close>, keeping \<open>match.group(1)\<close>: try at the current
  position, continue after a match, move one character on otherwise.
\<close>

function import_paths :: "string \<Rightarrow> string list" where
  "import_paths [] = []"
| "import_paths (c # cs) =
     (case match_import (c # cs) of
        Some (g, r) \<Rightarrow> g # import_paths r
      | None \<Rightarrow> import_paths cs)"
  by pat_completeness auto
termination
  by (relation "measure length") (auto dest: match_import_length)

text \<open>
  The package of a specifier: the part before the first \<open>/\<close>, or the first two parts
  joined by \<open>/\<close> when that part starts with \<open>@\<close>.
\<close>

definition package_of :: "string \<Rightarrow> string" where
  "package_of import_path =
     (let package = (case py_split CHR ''/'' import_path of w # ws \<Rightarrow> w | [] \<Rightarrow> [])
      in if startswith package ''@''
         then py_join ''/'' (take 2 (py_split CHR ''/'' import_path))
         else package)"

definition unmatched_error :: "string \<Rightarrow> nat \<Rightarrow> nat \<Rightarrow> ValidationError" where
  "unmatched_error kind n_open n_close =
     \<lparr> error_type = ''syntax'',
       message = ''Unmatched '' @ kind @ '': '' @ str_nat n_open @ '' open, ''
                 @ str_nat n_close @ '' close'',
       line_number = None,
       column = None,
       suggestion = Some (''Check for missing or extra '' @ kind) \<rparr>"

definition validate_typescript_syntax :: "string \<Rightarrow> ValidationResult" where
  "validate_typescript_syntax code =
     (let imports0 = map package_of
                       (filter (\<lambda>import_path. \<not> startswith import_path ''.'')
                          (import_paths code));
          imports1 = remdups imports0;
          open_braces = count_list code CHR ''{'';
          close_braces = count_list code CHR ''}'';
          errors1 = (if open_braces \<noteq> close_braces
                     then [unmatched_error ''braces'' open_braces close_braces] else []);
          open_parens = count_list code CHR ''('';
          close_parens = count_list code CHR '')'';
          errors2 = errors1 @ (if open_parens \<noteq> close_parens
                     then [unmatched_error ''parentheses'' open_parens close_parens] else []);
          open_brackets = count_list code CHR ''['';
          close_brackets = count_list code CHR '']'';
          errors3 = errors2 @ (if open_brackets \<noteq> close_brackets
                     then [unmatched_error ''brackets'' open_brackets close_brackets] else [])
      in \<lparr> is_valid = (length errors3 = 0),
           errors = errors3,
           warnings = [],
           v_imports = imports1 \<rparr>)"




section \<open>File creation (apis/ai_agent_tools, \<open>create_file\<close>)\<close>

text \<open>
  Python exceptions as values, all of them subclasses of \<open>Exception\<close>:
  FastAPI's \<open>HTTPException\<close> with a status code and a detail,
  \<open>json.JSONDecodeError\<close>, and \<open>Exception\<close> for every other one, with its
  message. Signals that are not an \<open>Exception\<close> (task cancellation, interpreter exit)
  are outside the model.
\<close>

datatype py_exn = HTTPException nat string | JSONDecodeError string | Exception string

record CreateFileRequest =
  project_id :: string
  file_path :: string
  file_content :: string
  language :: "string option"
  file_type :: "string option"

record CreateFileResponse =
  cf_success :: bool
  cf_message :: string
  cf_file_id :: string
  cf_file_path :: string

text \<open>A row of the table \<open>project_files\<close>.\<close>

record project_file =
  pf_id :: string
  pf_project_id :: string
  pf_filepath :: string
  pf_content :: string
  pf_language :: "string option"

text \<open>
  What \<open>create_file\<close> calls outside this module: Python's parser behind
  \<open>validate_python_syntax\<close>, the language model behind \<open>auto_heal_code\<close> (it returns
  a string or raises), \<open>str(e)\<close> of the framework's exception classes, the workspace
  creation and the database connection (each may raise), and \<open>uuid4()\<close>.
\<close>

record create_file_env =
  validate_python_syntax :: "string \<Rightarrow> ValidationResult"
  auto_heal_code :: "string \<Rightarrow> ValidationError list \<Rightarrow> string \<Rightarrow> py_exn + string"
  exn_str :: "py_exn \<Rightarrow> string"
  workspace_missing :: "string \<Rightarrow> bool"
  create_backend_workspace :: "string \<Rightarrow> py_exn option"
  get_db_connection :: "py_exn option"
  uuid4 :: string

definition suggestion_suffix :: "ValidationError \<Rightarrow> string" where
  "suggestion_suffix err =
     (case suggestion err of
        None \<Rightarrow> []
      | Some sg \<Rightarrow> if sg = [] then [] else '' (Suggestion: '' @ sg @ '')'')"

definition str_line :: "nat option \<Rightarrow> string" where
  "str_line l = (case l of None \<Rightarrow> ''None'' | Some n \<Rightarrow> str_nat n)"

definition python_error_details :: "ValidationError list \<Rightarrow> string" where
  "python_error_details errs =
     py_join [CHR 0x0A]
       (map (\<lambda>err. ''Line '' @ str_line (line_number err) @ '': '' @ message err
                    @ suggestion_suffix err) errs)"

definition typescript_error_details :: "ValidationError list \<Rightarrow> string" where
  "typescript_error_details errs =
     py_join [CHR 0x0A] (map (\<lambda>err. message err @ suggestion_suffix err) errs)"

text \<open>
  The validation block of one language: validate; when invalid, heal and validate again.
  The inner \<open>try\<close> catches every \<open>Exception\<close>, that of the healer and the
  \<open>"Healed code still invalid"\<close> it raises itself, and raises \<open>HTTPException\<close> 400 with
  the errors of the first validation. The result is the final code and the validation
  result in force.
\<close>

definition validate_and_heal ::
  "(string \<Rightarrow> ValidationResult) \<Rightarrow> (string \<Rightarrow> ValidationError list \<Rightarrow> string \<Rightarrow> py_exn + string)
   \<Rightarrow> string \<Rightarrow> string \<Rightarrow> (ValidationError list \<Rightarrow> string) \<Rightarrow> string
   \<Rightarrow> py_exn + (string \<times> ValidationResult)" where
  "validate_and_heal validate heal lang title details content =
     (let validation_result = validate content in
      if is_valid validation_result then Inr (content, validation_result)
      else
        (let attempt =
               (case heal content (errors validation_result) lang of
                  Inl e \<Rightarrow> Inl e
                | Inr healed_code \<Rightarrow>
                    (let healed_validation = validate healed_code in
                     if is_valid healed_validation then Inr (healed_code, healed_validation)
                     else Inl (Exception ''Healed code still invalid'')))
         in case attempt of
              Inr ok \<Rightarrow> Inr ok
            | Inl heal_error \<Rightarrow>
                Inl (HTTPException 400
                       (title @ '' syntax validation failed:'' @ [CHR 0x0A]
                        @ details (errors validation_result)))))"

text \<open>
  The body of the outer \<open>try\<close>, on the table \<open>project_files\<close>: validation, workspace
  creation for a Python API file, the connection, the existence check and the insert.
  The package detection that follows the insert runs inside its own \<open>try\<close>, touches the
  workspace manifests only and cannot change the outcome; it is left out.
\<close>

definition create_file_body ::
  "create_file_env \<Rightarrow> project_file list \<Rightarrow> CreateFileRequest
   \<Rightarrow> (py_exn + CreateFileResponse) \<times> project_file list" where
  "create_file_body env store request =
     (let validated =
            (if language request = Some ''python'' then
               map_sum id fst
                 (validate_and_heal (validate_python_syntax env) (auto_heal_code env)
                    ''python'' ''Python'' python_error_details (file_content request))
             else if language request = Some ''typescript'' then
               map_sum id fst
                 (validate_and_heal validate_typescript_syntax (auto_heal_code env)
                    ''typescript'' ''TypeScript'' typescript_error_details (file_content request))
             else Inr (file_content request))
      in case validated of
           Inl e \<Rightarrow> (Inl e, store)
         | Inr final_code \<Rightarrow>
             (case (if file_type request = Some ''api'' \<and> language request = Some ''python''
                       \<and> workspace_missing env (project_id request)
                    then create_backend_workspace env (project_id request) else None) of
                Some e \<Rightarrow> (Inl e, store)
              | None \<Rightarrow>
                  (case get_db_connection env of
                     Some e \<Rightarrow> (Inl e, store)
                   | None \<Rightarrow>
                       if \<exists>row \<in> set store. pf_project_id row = project_id request
                                             \<and> pf_filepath row = file_path request
                       then (Inl (HTTPException 400 ''File already exists. Use update endpoint.''),
                             store)
                       else
                         (Inr \<lparr> cf_success = True,
                                cf_message = ''File created: '' @ file_path request,
                                cf_file_id = uuid4 env,
                                cf_file_path = file_path request \<rparr>,
                          store @ [\<lparr> pf_id = uuid4 env,
                                     pf_project_id = project_id request,
                                     pf_filepath = file_path request,
                                     pf_content = final_code,
                                     pf_language = language request \<rparr>]))))"

text \<open>
  \<open>create_file\<close>: the body inside \<open>try: ... except Exception as e: raise
  HTTPException(status_code=500, detail=f"File creation failed: {str(e)}")\<close>. The
  handler catches \<open>HTTPException\<close> as well, since it is an \<open>Exception\<close>.
\<close>

definition create_file ::
  "create_file_env \<Rightarrow> project_file list \<Rightarrow> CreateFileRequest
   \<Rightarrow> (py_exn + CreateFileResponse) \<times> project_file list" where
  "create_file env store request =
     (case create_file_body env store request of
        (Inl e, store') \<Rightarrow>
          (Inl (HTTPException 500 (''File creation failed: '' @ exn_str env e)), store')
      | (Inr response, store') \<Rightarrow> (Inr response, store'))"

text \<open>The status code a caller of the endpoint sees.\<close>

definition status_code :: "py_exn + 'a \<Rightarrow> nat" where
  "status_code r =
     (case r of
        Inl (HTTPException code detail) \<Rightarrow> code
      | Inl (JSONDecodeError m) \<Rightarrow> 500
      | Inl (Exception m) \<Rightarrow> 500
      | Inr v \<Rightarrow> 200)"

section \<open>The orchestrator (libs/ai_orchestrator.py)\<close>

subsection \<open>Tool dispatch: \<open>execute_tool\<close>\<close>

text \<open>JSON values, as \<open>json.loads\<close> gives them and tool results hold them.\<close>

datatype jval =
    JNull
  | JBool bool
  | JInt int
  | JStr string
  | JList "jval list"
  | JObj "(string \<times> jval) list"

type_synonym pydict = "(string \<times> jval) list"

text \<open>\<open>d.get(k, default)\<close> and the truth value Python gives a JSON value.\<close>

definition dict_get :: "pydict \<Rightarrow> string \<Rightarrow> jval \<Rightarrow> jval" where
  "dict_get d k dflt = (case map_of d k of None \<Rightarrow> dflt | Some v \<Rightarrow> v)"

fun truthy :: "jval \<Rightarrow> bool" where
  "truthy JNull = False"
| "truthy (JBool b) = b"
| "truthy (JInt n) = (n \<noteq> 0)"
| "truthy (JStr s) = (s \<noteq> [])"
| "truthy (JList vs) = (vs \<noteq> [])"
| "truthy (JObj kvs) = (kvs \<noteq> [])"

text \<open>
  What an endpoint function returns to \<open>execute_tool\<close>: its \<open>success\<close> attribute
  (read for three tools only) and its other attributes by name.
\<close>

record endpoint_result =
  res_success :: bool
  res_attr :: "string \<Rightarrow> jval"

text \<open>
  What Python can raise. \<^typ>\<open>py_exn\<close> holds instances of \<open>Exception\<close>, which a clause
  \<open>except Exception\<close> catches. The other subclasses of \<open>BaseException\<close> pass such a
  clause: \<open>SystemExit\<close> with its code, \<open>KeyboardInterrupt\<close>, \<open>GeneratorExit\<close> and the
  \<open>asyncio.CancelledError\<close> that an \<open>await\<close> raises in a cancelled task.
\<close>

datatype base_exn = SystemExit int | KeyboardInterrupt | GeneratorExit | CancelledError

datatype raised = Exc py_exn | Base base_exn

text \<open>
  The environment of the dispatcher: building the request object from the parameters
  and awaiting the endpoint function of a tool (either may raise), \<open>str(e)\<close> and
  \<open>traceback.format_exc()\<close>. An endpoint runs code of its own under \<open>await\<close>, and
  \<open>run_python_script\<close> passes its \<open>code\<close> parameter to \<open>exec\<close> in the process of the
  orchestrator, so what an endpoint raises need not be an \<open>Exception\<close>.
\<close>

record tool_env =
  endpoint :: "string \<Rightarrow> jval \<Rightarrow> raised + endpoint_result"
  str_exn :: "py_exn \<Rightarrow> string"
  format_exc :: "py_exn \<Rightarrow> string"

text \<open>A branch that copies attributes of the result under \<open>"success": True\<close>.\<close>

definition ok_with :: "(string \<times> string) list \<Rightarrow> endpoint_result \<Rightarrow> pydict" where
  "ok_with attrs result =
     (''success'', JBool True) # map (\<lambda>(k, a). (k, res_attr result a)) attrs"

text \<open>A branch that reports the \<open>success\<close> attribute of the result.\<close>

definition result_with :: "(string \<times> string) list \<Rightarrow> endpoint_result \<Rightarrow> pydict" where
  "result_with attrs result =
     (''success'', JBool (res_success result)) # map (\<lambda>(k, a). (k, res_attr result a)) attrs"

text \<open>
  The \<open>if\<close>/\<open>elif\<close> chain of \<open>execute_tool\<close>, in the order of the source: for a known
  tool, how the returned dictionary is built from the result of its endpoint; \<open>None\<close>
  for the final \<open>else\<close>.
\<close>

definition tool_branch :: "string \<Rightarrow> (endpoint_result \<Rightarrow> pydict) option" where
  "tool_branch tool_name =
     (if tool_name = ''create_task'' then
        Some (result_with [(''message'', ''message''), (''data'', ''data'')])
      else if tool_name = ''update_task'' then
        Some (result_with [(''message'', ''message''), (''data'', ''data'')])
      else if tool_name = ''list_tasks'' then Some (ok_with [(''tasks'', ''tasks'')])
      else if tool_name = ''delete_task'' then Some (ok_with [(''message'', ''message'')])
      else if tool_name = ''add_task_comment'' then Some (ok_with [(''message'', ''message'')])
      else if tool_name = ''create_file'' then Some (ok_with [(''message'', ''message'')])
      else if tool_name = ''update_file'' then Some (ok_with [(''message'', ''message'')])
      else if tool_name = ''read_files'' then Some (ok_with [(''files'', ''files'')])
      else if tool_name = ''search_code'' then Some (ok_with [(''results'', ''results'')])
      else if tool_name = ''delete_file'' then Some (ok_with [(''message'', ''message'')])
      else if tool_name = ''run_migration'' then Some (ok_with [(''message'', ''message'')])
      else if tool_name = ''run_sql_query'' then Some (ok_with [(''result'', ''result'')])
      else if tool_name = ''get_sql_schema'' then Some (ok_with [(''schema'', ''schema'')])
      else if tool_name = ''run_python_script'' then Some (ok_with [(''output'', ''output'')])
      else if tool_name = ''read_logs'' then Some (ok_with [(''logs'', ''logs'')])
      else if tool_name = ''test_endpoint'' then Some (ok_with [(''result'', ''result'')])
      else if tool_name = ''troubleshoot'' then Some (ok_with [(''analysis'', ''analysis'')])
      else if tool_name = ''enable_integration'' then Some (ok_with [(''message'', ''message'')])
      else if tool_name = ''install_packages'' then
        Some (result_with [(''message'', ''message''), (''installed'', ''installed_packages''),
                           (''failed'', ''failed_packages''), (''details'', ''details'')])
      else if tool_name = ''visualize_data'' then
        Some (ok_with [(''visualization_id'', ''visualization_id'')])
      else if tool_name = ''request_data'' then Some (ok_with [(''message'', ''message'')])
      else if tool_name = ''trigger_build'' then
        Some (\<lambda>result. [(''success'', JBool True), (''message'', JStr ''Build triggered'')])
      else if tool_name = ''get_open_errors'' then
        Some (ok_with [(''has_errors'', ''has_errors''), (''errors'', ''errors'')])
      else if tool_name = ''resolve_error'' then
        Some (\<lambda>result. [(''success'', JBool True), (''message'', JStr ''Error resolved'')])
      else None)"

text \<open>The body of the \<open>try\<close> block: it raises what the request or the endpoint raises.\<close>

definition execute_tool_body :: "tool_env \<Rightarrow> string \<Rightarrow> jval \<Rightarrow> raised + pydict" where
  "execute_tool_body env tool_name parameters =
     (case tool_branch tool_name of
        None \<Rightarrow> Inr [(''success'', JBool False),
                     (''error'', JStr (''Unknown tool: '' @ tool_name))]
      | Some build \<Rightarrow>
          (case endpoint env tool_name parameters of
             Inl e \<Rightarrow> Inl e
           | Inr result \<Rightarrow> Inr (build result)))"

text \<open>
  \<open>execute_tool\<close>: the body under \<open>except Exception as e\<close>, which returns a dictionary
  for an \<open>Exception\<close>; anything else that the body raises leaves \<open>execute_tool\<close>.
\<close>

definition execute_tool :: "tool_env \<Rightarrow> string \<Rightarrow> jval \<Rightarrow> base_exn + pydict" where
  "execute_tool env tool_name parameters =
     (case execute_tool_body env tool_name parameters of
        Inr d \<Rightarrow> Inr d
      | Inl (Exc e) \<Rightarrow> Inr [(''success'', JBool False),
                            (''error'', JStr (''Tool execution failed: '' @ str_exn env e)),
                            (''traceback'', JStr (format_exc env e))]
      | Inl (Base b) \<Rightarrow> Inl b)"

text \<open>The tool names for which the chain has a branch.\<close>

definition dispatched_tools :: "string list" where
  "dispatched_tools =
     [''create_task'', ''update_task'', ''list_tasks'', ''delete_task'', ''add_task_comment'',
      ''create_file'', ''update_file'', ''read_files'', ''search_code'', ''delete_file'',
      ''run_migration'', ''run_sql_query'', ''get_sql_schema'', ''run_python_script'',
      ''read_logs'', ''test_endpoint'', ''troubleshoot'', ''enable_integration'',
      ''install_packages'', ''visualize_data'', ''request_data'', ''trigger_build'',
      ''get_open_errors'', ''resolve_error'']"


text \<open>
  Sample environments for concrete runs: \<open>str(e)\<close> as Starlette prints an
  \<open>HTTPException\<close>, a healer that returns its input unchanged, and endpoints of which
  \<open>create_file\<close> raises an \<open>HTTPException\<close>, \<open>run_python_script\<close> runs the script
  \<open>raise SystemExit(3)\<close> when that is its \<open>code\<close> parameter, and every other call
  succeeds.
\<close>

definition sample_str_exn :: "py_exn \<Rightarrow> string" where
  "sample_str_exn e =
     (case e of
        HTTPException code detail \<Rightarrow> str_nat code @ '': '' @ detail
      | JSONDecodeError m \<Rightarrow> m
      | Exception m \<Rightarrow> m)"

definition sample_create_file_env :: create_file_env where
  "sample_create_file_env =
     \<lparr> validate_python_syntax =
         (\<lambda>code. \<lparr> is_valid = True, errors = [], warnings = [], v_imports = [] \<rparr>),
       auto_heal_code = (\<lambda>code errs lang. Inr code),
       exn_str = sample_str_exn,
       workspace_missing = (\<lambda>p. False),
       create_backend_workspace = (\<lambda>p. None),
       get_db_connection = None,
       uuid4 = ''0b5e'' \<rparr>"

definition sample_request :: CreateFileRequest where
  "sample_request =
     \<lparr> project_id = ''p1'',
       file_path = ''frontend/src/pages/Home.tsx'',
       file_content = ''export default function Home() { return null'',
       language = Some ''typescript'',
       file_type = Some ''page'' \<rparr>"

definition sample_tool_env :: tool_env where
  "sample_tool_env =
     \<lparr> endpoint =
         (\<lambda>tool_name parameters.
            if tool_name = ''create_file''
            then Inl (Exc (HTTPException 500 ''File creation failed''))
            else if tool_name = ''run_python_script'' \<and>
                    parameters = JObj [(''code'', JStr ''raise SystemExit(3)'')]
            then Inl (Base (SystemExit 3))
            else Inr \<lparr> res_success = True, res_attr = (\<lambda>a. JStr ''ok'') \<rparr>),
       str_exn = sample_str_exn,
       format_exc = (\<lambda>e. ''Traceback (most recent call last)'') \<rparr>"

subsection \<open>The tool-calling loop: \<open>_stream_with_tools\<close>\<close>

record tool_call =
  tc_id :: string
  tc_name :: string
  tc_arguments :: string

text \<open>
  The entries of \<open>conversation_history\<close> and of the \<open>messages\<close> sent to the model. An
  assistant entry carries its tool calls, none when the key is absent; a tool entry
  carries \<open>tool_call_id\<close>, \<open>name\<close> and \<open>content\<close>.
\<close>

datatype message =
    Message_system string
  | Message_user string
  | Message_assistant string "tool_call list"
  | Message_tool string string string

text \<open>\<open>response.choices[0].message\<close>: both attributes may be \<open>None\<close>.\<close>

record llm_message =
  msg_content :: "string option"
  msg_tool_calls :: "tool_call list option"

text \<open>
  What the generator yields, one constructor per \<open>yield\<close> of the source: the text of
  the model, the header \<open>Executing Tools\<close>, the name of a tool, the mark of a
  success, the warning with the \<open>error\<close> of a failed result, the error of a tool call
  that raised, the line feed after the tool calls, and the final
  \<open>Maximum tool execution iterations reached. Stopping to prevent infinite loops.\<close>
\<close>

datatype chunk =
    Content string
  | ExecutingTools
  | ToolName string
  | ToolOk
  | ToolWarning jval
  | ToolError string
  | EndTools
  | MaxIterationsWarning

text \<open>
  The environment of the loop: the completion call of the model client, which is
  awaited, \<open>json.loads\<close>, \<open>json.dumps\<close> (each may raise) and the environment of
  \<open>execute_tool\<close>.
\<close>

record stream_env =
  chat_completions_create :: "message list \<Rightarrow> raised + llm_message"
  json_loads :: "string \<Rightarrow> py_exn + jval"
  json_dumps :: "pydict \<Rightarrow> py_exn + string"
  tools :: tool_env

text \<open>
  The state the generator works on: the history of the orchestrator, the local list
  \<open>tools_executed\<close>, the chunks yielded so far, and the \<open>messages\<close> argument of every
  completion call made so far.
\<close>

record stream_state =
  conversation_history :: "message list"
  tools_executed :: "(string \<times> jval) list"
  yielded :: "chunk list"
  model_calls :: "message list list"

definition yield :: "chunk \<Rightarrow> stream_state \<Rightarrow> stream_state" where
  "yield c st = st\<lparr> yielded := yielded st @ [c] \<rparr>"

definition append_history :: "message \<Rightarrow> stream_state \<Rightarrow> stream_state" where
  "append_history m st = st\<lparr> conversation_history := conversation_history st @ [m] \<rparr>"

text \<open>The \<open>try\<close> block of one tool call: the exception it raises, if any, and the state.\<close>

definition tool_call_try :: "stream_env \<Rightarrow> tool_call \<Rightarrow> stream_state \<Rightarrow> raised option \<times> stream_state" where
  "tool_call_try env tc st =
     (case json_loads env (tc_arguments tc) of
        Inl e \<Rightarrow> (Some (Exc e), st)
      | Inr arguments \<Rightarrow>
          (let st1 = yield (ToolName (tc_name tc)) st in
           case execute_tool (tools env) (tc_name tc) arguments of
             Inl b \<Rightarrow> (Some (Base b), st1)
           | Inr result \<Rightarrow>
               (let st2 =
                      (if truthy (dict_get result ''success'' (JBool True))
                       then (yield ToolOk st1)
                              \<lparr> tools_executed := tools_executed st1 @ [(tc_name tc, arguments)] \<rparr>
                       else yield (ToolWarning (dict_get result ''error'' (JStr ''Unknown error''))) st1)
                in case json_dumps env result of
                     Inl e \<Rightarrow> (Some (Exc e), st2)
                   | Inr dumped \<Rightarrow>
                       (None, append_history (Message_tool (tc_id tc) (tc_name tc) dumped) st2))))"

text \<open>
  One tool call with its two handlers, \<open>except json.JSONDecodeError\<close> and
  \<open>except Exception\<close>. What is no \<open>Exception\<close> passes both, and an exception raised
  inside a handler leaves the generator.
\<close>

definition run_tool_call :: "stream_env \<Rightarrow> tool_call \<Rightarrow> stream_state \<Rightarrow> raised option \<times> stream_state" where
  "run_tool_call env tc st =
     (case tool_call_try env tc st of
        (None, st') \<Rightarrow> (None, st')
      | (Some (Base b), st') \<Rightarrow> (Some (Base b), st')
      | (Some (Exc e), st') \<Rightarrow>
          (let error_msg =
                 (case e of
                    JSONDecodeError m \<Rightarrow> ''Invalid JSON arguments: '' @ str_exn (tools env) e
                  | HTTPException code detail \<Rightarrow> ''Tool execution error: '' @ str_exn (tools env) e
                  | Exception m \<Rightarrow> ''Tool execution error: '' @ str_exn (tools env) e);
               st'' = yield (ToolError error_msg) st'
           in case json_dumps env [(''success'', JBool False), (''error'', JStr error_msg)] of
                Inl e' \<Rightarrow> (Some (Exc e'), st'')
              | Inr dumped \<Rightarrow>
                  (None, append_history (Message_tool (tc_id tc) (tc_name tc) dumped) st'')))"

text \<open>\<open>for tool_call in message_obj.tool_calls\<close>.\<close>

fun run_tool_calls :: "stream_env \<Rightarrow> tool_call list \<Rightarrow> stream_state \<Rightarrow> raised option \<times> stream_state" where
  "run_tool_calls env [] st = (None, st)"
| "run_tool_calls env (tc # tcs) st =
     (case run_tool_call env tc st of
        (Some e, st') \<Rightarrow> (Some e, st')
      | (None, st') \<Rightarrow> run_tool_calls env tcs st')"

text \<open>
  \<open>while iteration < max_iterations\<close>: the exception that left the loop, if any, the
  final value of \<open>iteration\<close> and the state. The loop ends by \<open>break\<close> when the
  response carries no tool calls.
\<close>

function tool_loop ::
  "stream_env \<Rightarrow> string \<Rightarrow> nat \<Rightarrow> nat \<Rightarrow> stream_state \<Rightarrow> raised option \<times> nat \<times> stream_state" where
  "tool_loop env system_prompt max_iterations iteration st =
     (if iteration < max_iterations then
        (let messages = Message_system system_prompt # conversation_history st;
             st1 = st\<lparr> model_calls := model_calls st @ [messages] \<rparr>
         in case chat_completions_create env messages of
              Inl e \<Rightarrow> (Some e, iteration + 1, st1)
            | Inr message_obj \<Rightarrow>
                (let text = (case msg_content message_obj of None \<Rightarrow> [] | Some c \<Rightarrow> c);
                     st2 = (if text \<noteq> [] then yield (Content text) st1 else st1);
                     tcs = (case msg_tool_calls message_obj of None \<Rightarrow> [] | Some l \<Rightarrow> l)
                 in if tcs = [] then
                      (None, iteration + 1, append_history (Message_assistant text []) st2)
                    else
                      (case run_tool_calls env tcs
                              (append_history (Message_assistant text tcs)
                                 (yield ExecutingTools st2)) of
                         (Some e, st3) \<Rightarrow> (Some e, iteration + 1, st3)
                       | (None, st3) \<Rightarrow>
                           tool_loop env system_prompt max_iterations (iteration + 1)
                             (yield EndTools st3))))
      else (None, iteration, st))"
  by pat_completeness auto
termination
  by (relation "measure (\<lambda>(env, system_prompt, max_iterations, iteration, st).
                           max_iterations - iteration)") auto

declare tool_loop.simps [simp del]

text \<open>
  \<open>_stream_with_tools(message, system_prompt, max_iterations)\<close> on a history:
  \<open>context_prompt\<close> is the formatted cached context, \<open>None\<close> when there is none or
  formatting it failed. The update of the context memory between the loop and the final
  test yields nothing, catches its own exceptions and is left out.
\<close>

definition stream_with_tools ::
  "stream_env \<Rightarrow> string option \<Rightarrow> string \<Rightarrow> string \<Rightarrow> nat \<Rightarrow> message list
   \<Rightarrow> raised option \<times> stream_state" where
  "stream_with_tools env context_prompt user_message system_prompt max_iterations history =
     (let enhanced_prompt =
            (case context_prompt of
               None \<Rightarrow> system_prompt
             | Some cp \<Rightarrow> cp @ [CHR 0x0A, CHR 0x0A] @ ''---'' @ [CHR 0x0A, CHR 0x0A] @ system_prompt);
          st0 = \<lparr> conversation_history = history @ [Message_user user_message],
                  tools_executed = [],
                  yielded = [],
                  model_calls = [] \<rparr>
      in case tool_loop env enhanced_prompt max_iterations 0 st0 of
           (Some e, iteration, st) \<Rightarrow> (Some e, st)
         | (None, iteration, st) \<Rightarrow>
             (None, if iteration \<ge> max_iterations then yield MaxIterationsWarning st else st))"

text \<open>What a run of tool calls leaves alone: the log of model calls, and the absence of the
  final warning among the chunks.\<close>

definition quiet_step :: "stream_state \<Rightarrow> stream_state \<Rightarrow> bool" where
  "quiet_step st st' \<longleftrightarrow>
     model_calls st' = model_calls st \<and>
     (MaxIterationsWarning \<notin> set (yielded st) \<longrightarrow> MaxIterationsWarning \<notin> set (yielded st'))"

text \<open>
  A sample run: the model asks for \<open>list_tasks\<close> until the dialog holds four tool
  results and then answers in text.
\<close>

definition sample_stream_env :: stream_env where
  "sample_stream_env =
     \<lparr> chat_completions_create =
         (\<lambda>messages.
            if length (filter (\<lambda>m. case m of Message_tool i n c \<Rightarrow> True | _ \<Rightarrow> False) messages) < 4
            then Inr \<lparr> msg_content = None,
                       msg_tool_calls =
                         Some [\<lparr> tc_id = ''call_1'', tc_name = ''list_tasks'',
                                  tc_arguments = ''{}'' \<rparr>] \<rparr>
            else Inr \<lparr> msg_content = Some ''All tasks are listed.'', msg_tool_calls = None \<rparr>),
       json_loads = (\<lambda>s. Inr (JObj [])),
       json_dumps = (\<lambda>d. Inr ''{}''),
       tools = sample_tool_env \<rparr>"

text \<open>
  A second sample: the model asks for \<open>list_tasks\<close> in every response, and every
  endpoint succeeds.
\<close>

definition quiet_tool_env :: tool_env where
  "quiet_tool_env =
     \<lparr> endpoint =
         (\<lambda>tool_name parameters. Inr \<lparr> res_success = True, res_attr = (\<lambda>a. JStr ''ok'') \<rparr>),
       str_exn = sample_str_exn,
       format_exc = (\<lambda>e. ''Traceback (most recent call last)'') \<rparr>"

definition sample_looping_env :: stream_env where
  "sample_looping_env =
     \<lparr> chat_completions_create =
         (\<lambda>messages.
            Inr \<lparr> msg_content = Some ''Checking the tasks.'',
                  msg_tool_calls =
                    Some [\<lparr> tc_id = ''call_1'', tc_name = ''list_tasks'',
                             tc_arguments = ''{}'' \<rparr>] \<rparr>),
       json_loads = (\<lambda>s. Inr (JObj [])),
       json_dumps = (\<lambda>d. Inr ''{}''),
       tools = quiet_tool_env \<rparr>"

section \<open>The context loader (libs/ai_context_loader.py, \<open>update_memory\<close>)\<close>

text \<open>
  The JSON object \<open>context_data\<close> of a row of \<open>agent_context\<close>: a key that is absent is
  \<open>None\<close>. \<open>ai_memory\<close> is a dictionary from strings to JSON values.
\<close>

record context_data =
  current_phase :: "string option"
  current_task :: "string option"
  files_generated :: "string list option"
  tasks_completed :: "string list option"
  recent_errors :: "string list option"
  ai_memory :: "(string \<rightharpoonup> jval) option"

text \<open>
  The table \<open>agent_context\<close>, keyed by \<open>project_id\<close> (a unique key). The connection
  is taken to decode the \<open>jsonb\<close> column to a dictionary and project identifiers to be
  well-formed UUIDs.
\<close>

type_synonym agent_context = "string \<rightharpoonup> context_data"

text \<open>\<open>xs[-10:]\<close>: the last ten entries, all of them when there are fewer.\<close>

definition last10 :: "'a list \<Rightarrow> 'a list" where
  "last10 xs = drop (length xs - 10) xs"

text \<open>\<open>existing_data.update(context_data)\<close>: the keys the update has replace the old ones.\<close>

definition dict_update :: "context_data \<Rightarrow> context_data \<Rightarrow> context_data" where
  "dict_update existing_data upd =
     \<lparr> current_phase = (case current_phase upd of None \<Rightarrow> current_phase existing_data | Some v \<Rightarrow> Some v),
       current_task = (case current_task upd of None \<Rightarrow> current_task existing_data | Some v \<Rightarrow> Some v),
       files_generated =
         (case files_generated upd of None \<Rightarrow> files_generated existing_data | Some v \<Rightarrow> Some v),
       tasks_completed =
         (case tasks_completed upd of None \<Rightarrow> tasks_completed existing_data | Some v \<Rightarrow> Some v),
       recent_errors =
         (case recent_errors upd of None \<Rightarrow> recent_errors existing_data | Some v \<Rightarrow> Some v),
       ai_memory = (case ai_memory upd of None \<Rightarrow> ai_memory existing_data | Some v \<Rightarrow> Some v) \<rparr>"

text \<open>
  The four merges under \<open>if existing:\<close>, each guarded by the key being in both
  dictionaries: \<open>list(set(old + new))\<close> for the two file and task lists,
  \<open>(old + new)[-10:]\<close> for the errors, \<open>old.copy().update(new)\<close> for the memory.
\<close>

definition merge_arrays :: "context_data \<Rightarrow> context_data \<Rightarrow> context_data" where
  "merge_arrays existing_data cd =
     cd\<lparr> files_generated :=
            (case (files_generated cd, files_generated existing_data) of
               (Some new, Some old) \<Rightarrow> Some (remdups (old @ new))
             | _ \<Rightarrow> files_generated cd),
          tasks_completed :=
            (case (tasks_completed cd, tasks_completed existing_data) of
               (Some new, Some old) \<Rightarrow> Some (remdups (old @ new))
             | _ \<Rightarrow> tasks_completed cd),
          recent_errors :=
            (case (recent_errors cd, recent_errors existing_data) of
               (Some new, Some old) \<Rightarrow> Some (last10 (old @ new))
             | _ \<Rightarrow> recent_errors cd),
          ai_memory :=
            (case (ai_memory cd, ai_memory existing_data) of
               (Some new, Some old) \<Rightarrow> Some (old ++ new)
             | _ \<Rightarrow> ai_memory cd) \<rparr>"

text \<open>
  \<open>update_memory\<close>: it raises \<open>RuntimeError\<close> outside the context manager; otherwise it
  builds \<open>context_data\<close> from the parameters that are not \<open>None\<close>, merges it with the
  row of the project when \<open>merge\<close> is set and the row exists, and upserts the result.
\<close>

definition update_memory ::
  "bool \<Rightarrow> agent_context \<Rightarrow> string
   \<Rightarrow> string option \<Rightarrow> string option \<Rightarrow> string list option \<Rightarrow> string list option
   \<Rightarrow> string list option \<Rightarrow> (string \<rightharpoonup> jval) option \<Rightarrow> bool
   \<Rightarrow> py_exn + agent_context" where
  "update_memory context_builder db project
     phase task files tasks errs memory merge =
     (if \<not> context_builder
      then Inl (Exception ''AIContextLoader must be used as async context manager'')
      else
        (let cd = \<lparr> current_phase = phase, current_task = task, files_generated = files,
                     tasks_completed = tasks, recent_errors = errs, ai_memory = memory \<rparr>;
             cd' = (if merge
                    then (case db project of
                            None \<Rightarrow> cd
                          | Some existing_data \<Rightarrow>
                              dict_update existing_data (merge_arrays existing_data cd))
                    else cd)
         in Inr (db(project \<mapsto> cd'))))"

text \<open>The row a call leaves for the project; the row before it when the call raises.\<close>

definition stored_after ::
  "py_exn + agent_context \<Rightarrow> agent_context \<Rightarrow> string \<Rightarrow> context_data option" where
  "stored_after r db project = (case r of Inl e \<Rightarrow> db project | Inr db' \<Rightarrow> db' project)"

text \<open>A list that is \<open>None\<close> read as its elements, none when the key is absent.\<close>

definition elems :: "'a list option \<Rightarrow> 'a set" where
  "elems l = (case l of None \<Rightarrow> {} | Some xs \<Rightarrow> set xs)"

text \<open>
  The merge as the specification words it, with an absent list read as empty and an
  absent memory as the empty dictionary: union of the file and task lists, the last ten
  of the old errors followed by the new ones, the memories merged with the new keys
  winning, the scalars overwritten by the ones given.
\<close>

definition spec_merged :: "context_data \<Rightarrow> context_data \<Rightarrow> context_data \<Rightarrow> bool" where
  "spec_merged old upd result \<longleftrightarrow>
     elems (files_generated result) = elems (files_generated old) \<union> elems (files_generated upd) \<and>
     elems (tasks_completed result) = elems (tasks_completed old) \<union> elems (tasks_completed upd) \<and>
     (case recent_errors result of None \<Rightarrow> [] | Some xs \<Rightarrow> xs) =
        last10 ((case recent_errors old of None \<Rightarrow> [] | Some xs \<Rightarrow> xs) @
                (case recent_errors upd of None \<Rightarrow> [] | Some xs \<Rightarrow> xs)) \<and>
     (case ai_memory result of None \<Rightarrow> Map.empty | Some m \<Rightarrow> m) =
        (case ai_memory old of None \<Rightarrow> Map.empty | Some m \<Rightarrow> m) ++
        (case ai_memory upd of None \<Rightarrow> Map.empty | Some m \<Rightarrow> m) \<and>
     current_phase result =
        (case current_phase upd of None \<Rightarrow> current_phase old | Some v \<Rightarrow> Some v) \<and>
     current_task result =
        (case current_task upd of None \<Rightarrow> current_task old | Some v \<Rightarrow> Some v)"

text \<open>Sample data: eleven error ids and a row written by an earlier call that gave a phase.\<close>

definition eleven_errors :: "string list" where
  "eleven_errors = [''e01'', ''e02'', ''e03'', ''e04'', ''e05'', ''e06'',
                    ''e07'', ''e08'', ''e09'', ''e10'', ''e11'']"

definition phase_only :: context_data where
  "phase_only = \<lparr> current_phase = Some ''planning'', current_task = None,
                  files_generated = None, tasks_completed = None,
                  recent_errors = None, ai_memory = None \<rparr>"

definition sample_row :: context_data where
  "sample_row = \<lparr> current_phase = Some ''planning'', current_task = Some ''t1'',
                  files_generated = Some [''a.py'', ''b.py''], tasks_completed = Some [''t0''],
                  recent_errors = Some [''d1'', ''d2'', ''d3''],
                  ai_memory = Some [''last_action'' \<mapsto> JStr ''plan'', ''tables'' \<mapsto> JInt 2] \<rparr>"

section \<open>The backend process manager (apis/project_backend_manager)\<close>

text \<open>
  An entry of \<open>running_backends\<close>; the process handle is left out. The dictionary is
  an association list in insertion order, with the assignment and the deletion of
  Python dictionaries.
\<close>

record backend_info =
  pid :: nat
  port :: nat
  status :: string
  started_at :: int
  workspace_path :: string

type_synonym backends = "(string \<times> backend_info) list"

fun dict_assign :: "string \<Rightarrow> 'v \<Rightarrow> (string \<times> 'v) list \<Rightarrow> (string \<times> 'v) list" where
  "dict_assign k v [] = [(k, v)]"
| "dict_assign k v ((k', v') # d) =
     (if k = k' then (k, v) # d else (k', v') # dict_assign k v d)"

definition dict_del :: "string \<Rightarrow> (string \<times> 'v) list \<Rightarrow> (string \<times> 'v) list" where
  "dict_del k d = filter (\<lambda>(k', v). k' \<noteq> k) d"

definition BASE_PORT :: nat where
  "BASE_PORT = 8001"

definition MAX_BACKENDS :: nat where
  "MAX_BACKENDS = 100"

definition used_ports :: "backends \<Rightarrow> nat set" where
  "used_ports running_backends = set (map (\<lambda>(project, info). port info) running_backends)"

text \<open>
  \<open>allocate_port\<close>: the first candidate \<open>BASE_PORT + i\<close>, \<open>i\<close> in
  \<open>range(MAX_BACKENDS)\<close>, that is not in use; an exception when there is none.
\<close>

definition allocate_port :: "backends \<Rightarrow> py_exn + nat" where
  "allocate_port running_backends =
     (case find (\<lambda>candidate_port. candidate_port \<notin> used_ports running_backends)
             (map (\<lambda>i. BASE_PORT + i) [0..<MAX_BACKENDS]) of
        Some candidate_port \<Rightarrow> Inr candidate_port
      | None \<Rightarrow> Inl (Exception ''No available ports (max 100 backends)''))"

text \<open>
  What the manager asks of the host: whether the workspace and its \<open>main.py\<close> exist,
  the start of the server process (its pid, or the exception of a missing virtual
  environment or a failed spawn), whether stopping a process raises, whether a pid is
  gone (\<open>psutil.NoSuchProcess\<close>), the clock and \<open>str(e)\<close>.
\<close>

record manager_env =
  workspace_exists :: "string \<Rightarrow> bool"
  main_py_exists :: "string \<Rightarrow> bool"
  start_backend_process :: "string \<Rightarrow> nat \<Rightarrow> py_exn + nat"
  stop_raises :: "string \<Rightarrow> bool"
  no_such_process :: "nat \<Rightarrow> bool"
  time_now :: int
  manager_str_exn :: "py_exn \<Rightarrow> string"

record start_result =
  sr_message :: string
  sr_port :: nat
  sr_pid :: nat

definition backend_workspace :: "string \<Rightarrow> string" where
  "backend_workspace project = ''/disk/backend/.preview-builds/'' @ project @ ''/backend''"

text \<open>
  \<open>start_backend\<close>: the entry of a running project is returned as it is; a missing
  workspace or \<open>main.py\<close> gives 404; otherwise a port is allocated, the process
  started and the entry recorded, and any exception on the way gives 500. There is no
  suspension point between the allocation and the recording.
\<close>

definition start_backend ::
  "manager_env \<Rightarrow> backends \<Rightarrow> string \<Rightarrow> (py_exn + start_result) \<times> backends" where
  "start_backend env running_backends project =
     (case map_of running_backends project of
        Some info \<Rightarrow>
          (Inr \<lparr> sr_message = ''Backend already running'', sr_port = port info, sr_pid = pid info \<rparr>,
           running_backends)
      | None \<Rightarrow>
          if \<not> workspace_exists env project then
            (Inl (HTTPException 404
                    (''Backend workspace not found for project '' @ project
                     @ ''. Run POST /preview/backend/create first.'')),
             running_backends)
          else if \<not> main_py_exists env project then
            (Inl (HTTPException 404
                    ''main.py not found in workspace. Run POST /preview/backend/create first.''),
             running_backends)
          else
            (case allocate_port running_backends of
               Inl e \<Rightarrow>
                 (Inl (HTTPException 500 (''Failed to start backend: '' @ manager_str_exn env e)),
                  running_backends)
             | Inr p \<Rightarrow>
                 (case start_backend_process env project p of
                    Inl e \<Rightarrow>
                      (Inl (HTTPException 500
                              (''Failed to start backend: '' @ manager_str_exn env e)),
                       running_backends)
                  | Inr process_pid \<Rightarrow>
                      (Inr \<lparr> sr_message = ''Backend started successfully'', sr_port = p,
                             sr_pid = process_pid \<rparr>,
                       dict_assign project
                         \<lparr> pid = process_pid, port = p, status = ''running'',
                           started_at = time_now env,
                           workspace_path = backend_workspace project \<rparr>
                         running_backends))))"

text \<open>
  \<open>stop_backend_process\<close>: \<open>False\<close> for a project that is not running; otherwise the
  entry is deleted on both paths, and the result tells whether stopping raised.
\<close>

definition stop_backend_process :: "manager_env \<Rightarrow> backends \<Rightarrow> string \<Rightarrow> bool \<times> backends" where
  "stop_backend_process env running_backends project =
     (case map_of running_backends project of
        None \<Rightarrow> (False, running_backends)
      | Some info \<Rightarrow> (\<not> stop_raises env project, dict_del project running_backends))"

definition stop_backend ::
  "manager_env \<Rightarrow> backends \<Rightarrow> string \<Rightarrow> (py_exn + bool) \<times> backends" where
  "stop_backend env running_backends project =
     (case map_of running_backends project of
        None \<Rightarrow>
          (Inl (HTTPException 404 (''No running backend found for project '' @ project)),
           running_backends)
      | Some info \<Rightarrow>
          (case stop_backend_process env running_backends project of
             (success, bs) \<Rightarrow> (Inr success, bs)))"

definition restart_backend ::
  "manager_env \<Rightarrow> backends \<Rightarrow> string \<Rightarrow> (py_exn + start_result) \<times> backends" where
  "restart_backend env running_backends project =
     start_backend env
       (case map_of running_backends project of
          None \<Rightarrow> running_backends
        | Some info \<Rightarrow> snd (stop_backend_process env running_backends project))
       project"

text \<open>\<open>get_backend_status\<close>, its effect on the dictionary: the entry of a pid that is gone
  is removed.\<close>

definition get_backend_status :: "manager_env \<Rightarrow> backends \<Rightarrow> string \<Rightarrow> backends" where
  "get_backend_status env running_backends project =
     (case map_of running_backends project of
        None \<Rightarrow> running_backends
      | Some info \<Rightarrow>
          if no_such_process env (pid info) then dict_del project running_backends
          else running_backends)"

text \<open>\<open>stop_all_backends\<close>: \<open>stop_backend_process\<close> for every key.\<close>

definition stop_all_backends :: "manager_env \<Rightarrow> backends \<Rightarrow> backends" where
  "stop_all_backends env running_backends =
     fold (\<lambda>project bs. snd (stop_backend_process env bs project))
       (map fst running_backends) running_backends"

text \<open>The calls that change the dictionary, each under the host answers of its moment.\<close>

datatype manager_call =
    Start string
  | Stop string
  | Restart string
  | Status string
  | StopAll

definition manager_step :: "backends \<Rightarrow> manager_env \<times> manager_call \<Rightarrow> backends" where
  "manager_step running_backends ec =
     (case ec of
        (env, Start project) \<Rightarrow> snd (start_backend env running_backends project)
      | (env, Stop project) \<Rightarrow> snd (stop_backend env running_backends project)
      | (env, Restart project) \<Rightarrow> snd (restart_backend env running_backends project)
      | (env, Status project) \<Rightarrow> get_backend_status env running_backends project
      | (env, StopAll) \<Rightarrow> stop_all_backends env running_backends)"

definition manager_run :: "(manager_env \<times> manager_call) list \<Rightarrow> backends" where
  "manager_run calls = foldl manager_step [] calls"

text \<open>A host on which every workspace exists and every process starts, with pid 4000 plus
  the port.\<close>

definition sample_manager_env :: manager_env where
  "sample_manager_env =
     \<lparr> workspace_exists = (\<lambda>p. True),
       main_py_exists = (\<lambda>p. True),
       start_backend_process = (\<lambda>project p. Inr (4000 + p)),
       stop_raises = (\<lambda>p. False),
       no_such_process = (\<lambda>n. False),
       time_now = 0,
       manager_str_exn = sample_str_exn \<rparr>"

text \<open>The invariant of the dictionary: keys and ports without repetition.\<close>

definition ports_distinct :: "backends \<Rightarrow> bool" where
  "ports_distinct running_backends \<longleftrightarrow>
     distinct (map fst running_backends) \<and>
     distinct (map (\<lambda>(project, info). port info) running_backends)"

text \<open>A host on which every start succeeds, and the port a start reports.\<close>

definition host_ready :: "manager_env \<Rightarrow> bool" where
  "host_ready env \<longleftrightarrow>
     (\<forall>project. workspace_exists env project \<and> main_py_exists env project) \<and>
     (\<forall>project p. \<exists>k. start_backend_process env project p = Inr k)"

definition started_port :: "(py_exn + start_result) \<times> backends \<Rightarrow> nat option" where
  "started_port r = (case fst r of Inl e \<Rightarrow> None | Inr s \<Rightarrow> Some (sr_port s))"

section \<open>The preview builder (apis/preview)\<close>

subsection \<open>Staging the generated files: \<open>build_preview\<close>\<close>















text \<open>
  A sample file system: a directory or a file with its text at a path. Making a
  directory fails on a file in the way, and writing fails on a directory and under a
  path that is no directory.
\<close>

datatype node = Dir | File string

type_synonym disk = "string list \<Rightarrow> node option"










subsection \<open>Serving built assets: \<open>serve_preview_assets\<close>\<close>

text \<open>
  What the handler asks of the file system: \<open>Path.exists\<close>, \<open>Path.is_file\<close> and the
  string of \<open>Path.resolve\<close>.
\<close>

record file_system =
  fs_exists :: "string \<Rightarrow> bool"
  fs_is_file :: "string \<Rightarrow> bool"
  fs_resolve :: "string \<Rightarrow> string"

text \<open>\<open>a / b\<close> of \<open>pathlib\<close>: an absolute \<open>b\<close> replaces \<open>a\<close>, an empty one leaves it.\<close>

definition path_join :: "string \<Rightarrow> string \<Rightarrow> string" where
  "path_join a b =
     (if startswith b ''/'' then b else if b = [] then a else a @ ''/'' @ b)"

record file_response =
  fr_path :: string
  fr_media_type :: string

definition media_type_of :: "string \<Rightarrow> string" where
  "media_type_of filepath =
     (if endswith filepath ''.js'' then ''application/javascript''
      else if endswith filepath ''.css'' then ''text/css''
      else if endswith filepath ''.json'' then ''application/json''
      else if endswith filepath ''.svg'' then ''image/svg+xml''
      else ''application/octet-stream'')"

definition serve_preview_assets ::
  "(string \<rightharpoonup> string) \<Rightarrow> file_system \<Rightarrow> string \<Rightarrow> string \<Rightarrow> py_exn + file_response" where
  "serve_preview_assets BUILD_CACHE fs project filepath =
     (case BUILD_CACHE project of
        None \<Rightarrow> Inl (HTTPException 404 ''Preview not built'')
      | Some dist_dir \<Rightarrow>
          (let asset_path = path_join (path_join dist_dir ''assets'') filepath in
           if \<not> fs_exists fs asset_path \<or> \<not> fs_is_file fs asset_path
           then Inl (HTTPException 404 ''Asset not found'')
           else if \<not> startswith (fs_resolve fs asset_path)
                                  (fs_resolve fs (path_join dist_dir ''assets''))
           then Inl (HTTPException 403 ''Invalid asset path'')
           else Inr \<lparr> fr_path = asset_path, fr_media_type = media_type_of filepath \<rparr>))"

text \<open>A resolved path lies in a directory when it is the directory or below it.\<close>

definition inside_dir :: "string \<Rightarrow> string \<Rightarrow> bool" where
  "inside_dir dir p \<longleftrightarrow> p = dir \<or> startswith p (dir @ ''/'')"

text \<open>
  A sample build output with a directory \<open>assets-old\<close> beside \<open>assets\<close>. Paths
  resolve by cancelling the \<open>..\<close> segment; no link is involved.
\<close>

definition sample_fs :: file_system where
  "sample_fs =
     \<lparr> fs_exists = (\<lambda>p. p \<in> {''/builds/p1/dist/assets'',
                               ''/builds/p1/dist/assets/index.js'',
                               ''/builds/p1/dist/assets/../assets-old/keys.json''}),
       fs_is_file = (\<lambda>p. p \<in> {''/builds/p1/dist/assets/index.js'',
                                ''/builds/p1/dist/assets/../assets-old/keys.json''}),
       fs_resolve = (\<lambda>p. if p = ''/builds/p1/dist/assets/../assets-old/keys.json''
                          then ''/builds/p1/dist/assets-old/keys.json'' else p) \<rparr>"


subsection \<open>The Python manifest: \<open>update_project_pyproject\<close>\<close>



text \<open>The classes \<open>[^"\',]\<close> and \<open>[a-zA-Z0-9_-]\<close>; the second is written out in the
  pattern and holds ASCII characters only.\<close>

definition pkg_char :: "char \<Rightarrow> bool" where
  "pkg_char c \<longleftrightarrow> \<not> is_quote c \<and> c \<noteq> CHR '',''"

definition name_char :: "char \<Rightarrow> bool" where
  "name_char c = (let n = (of_char c :: nat) in
     (97 \<le> n \<and> n \<le> 122) \<or> (65 \<le> n \<and> n \<le> 90) \<or> (48 \<le> n \<and> n \<le> 57) \<or>
     n = 95 \<or> n = 45)"












chapter \<open>Verified properties\<close>

section \<open>Splitting and joining\<close>






section \<open>The TypeScript validator\<close>

subsection \<open>What the import pattern finds\<close>





lemma special_chars [simp]:
  "\<not> is_space CHR ''{''" "\<not> is_space CHR ''*''" "\<not> is_space CHR ''f''" "\<not> is_space CHR ''a''"
  "\<not> is_word CHR ''{''" "\<not> is_word CHR ''*''" "\<not> is_word CHR ''}''"
  by (simp_all add: is_space_def is_word_def)











subsection \<open>The result of the validator\<close>




section \<open>File creation\<close>

lemma validate_and_heal_unhealed:
  assumes "\<not> is_valid (validate content)"
    and "\<And>healed. heal content (errors (validate content)) lang = Inr healed
           \<Longrightarrow> \<not> is_valid (validate healed)"
  shows "validate_and_heal validate heal lang title details content =
           Inl (HTTPException 400 (title @ '' syntax validation failed:'' @ [CHR 0x0A]
                                   @ details (errors (validate content))))"
  using assms
  by (cases "heal content (errors (validate content)) lang")
     (simp_all add: validate_and_heal_def Let_def)

lemma unmatched_braces_invalid:
  "count_list code CHR ''{'' \<noteq> count_list code CHR ''}''
   \<Longrightarrow> \<not> is_valid (validate_typescript_syntax code)"
  by (simp add: validate_typescript_syntax_def Let_def)

text \<open>
  Claim C6. For a TypeScript file with unmatched braces that the healer does not repair,
  \<open>create_file\<close> inserts no row and raises an \<open>HTTPException\<close>; its status is 500,
  because the handler around the whole body catches the 400 raised by the validation
  block and wraps it. The detail carries the text of the inner exception.
\<close>

theorem create_file_unhealed_typescript:
  assumes "language request = Some ''typescript''"
    and "count_list (file_content request) CHR ''{''
           \<noteq> count_list (file_content request) CHR ''}''"
    and "\<And>healed. auto_heal_code env (file_content request)
            (errors (validate_typescript_syntax (file_content request))) ''typescript''
            = Inr healed
          \<Longrightarrow> \<not> is_valid (validate_typescript_syntax healed)"
  shows "create_file env store request =
           (Inl (HTTPException 500
                  (''File creation failed: '' @
                   exn_str env
                     (HTTPException 400
                        (''TypeScript syntax validation failed:'' @ [CHR 0x0A] @
                         typescript_error_details
                           (errors (validate_typescript_syntax (file_content request))))))),
            store)"
proof -
  have inv: "\<not> is_valid (validate_typescript_syntax (file_content request))"
    using assms(2) by (rule unmatched_braces_invalid)
  have "validate_and_heal validate_typescript_syntax (auto_heal_code env) ''typescript''
          ''TypeScript'' typescript_error_details (file_content request) =
        Inl (HTTPException 400
               (''TypeScript'' @ '' syntax validation failed:'' @ [CHR 0x0A] @
                typescript_error_details
                  (errors (validate_typescript_syntax (file_content request)))))"
    using inv assms(3) by (rule validate_and_heal_unhealed)
  then show ?thesis
    using assms(1) by (simp add: create_file_def create_file_body_def Let_def)
qed

theorem create_file_unhealed_typescript_witness:
  "status_code (fst (create_file sample_create_file_env [] sample_request)) = 500 \<and>
   snd (create_file sample_create_file_env [] sample_request) = []"
proof -
  have l: "language sample_request = Some ''typescript''"
    by (simp add: sample_request_def)
  have c: "count_list (file_content sample_request) CHR ''{''
             \<noteq> count_list (file_content sample_request) CHR ''}''"
    by (simp add: sample_request_def)
  have h: "\<And>healed. auto_heal_code sample_create_file_env (file_content sample_request)
            (errors (validate_typescript_syntax (file_content sample_request))) ''typescript''
            = Inr healed
          \<Longrightarrow> \<not> is_valid (validate_typescript_syntax healed)"
    using c by (auto simp: sample_create_file_env_def dest: unmatched_braces_invalid)
  show ?thesis
    using create_file_unhealed_typescript [OF l c h, where store = "[]"]
    by (simp add: status_code_def)
qed

section \<open>Tool dispatch\<close>

lemma tool_branch_None: "tool_branch tool_name = None \<longleftrightarrow> tool_name \<notin> set dispatched_tools"
  by (simp add: tool_branch_def dispatched_tools_def)

lemma execute_tool_unknown:
  "tool_name \<notin> set dispatched_tools \<Longrightarrow>
     execute_tool env tool_name parameters =
       Inr [(''success'', JBool False), (''error'', JStr (''Unknown tool: '' @ tool_name))]"
  by (simp add: execute_tool_def execute_tool_body_def tool_branch_None [symmetric])

lemma execute_tool_dispatched:
  assumes "tool_name \<in> set dispatched_tools"
  obtains build where "tool_branch tool_name = Some build"
    "execute_tool env tool_name parameters =
       (case endpoint env tool_name parameters of
          Inr result \<Rightarrow> Inr (build result)
        | Inl (Exc e) \<Rightarrow> Inr [(''success'', JBool False),
                              (''error'', JStr (''Tool execution failed: '' @ str_exn env e)),
                              (''traceback'', JStr (format_exc env e))]
        | Inl (Base b) \<Rightarrow> Inl b)"
proof -
  obtain build where b: "tool_branch tool_name = Some build"
    using assms tool_branch_None [of tool_name] by auto
  show thesis
    by (rule that [OF b])
       (simp add: execute_tool_def execute_tool_body_def b split: sum.splits raised.splits)
qed

lemma execute_tool_Inl:
  "execute_tool env tool_name parameters = Inl b \<longleftrightarrow>
     tool_name \<in> set dispatched_tools \<and> endpoint env tool_name parameters = Inl (Base b)"
proof (cases "tool_name \<in> set dispatched_tools")
  case False
  then show ?thesis by (simp add: execute_tool_unknown)
next
  case True
  then obtain build where
    "execute_tool env tool_name parameters =
       (case endpoint env tool_name parameters of
          Inr result \<Rightarrow> Inr (build result)
        | Inl (Exc e) \<Rightarrow> Inr [(''success'', JBool False),
                              (''error'', JStr (''Tool execution failed: '' @ str_exn env e)),
                              (''traceback'', JStr (format_exc env e))]
        | Inl (Base b) \<Rightarrow> Inl b)"
    by (rule execute_tool_dispatched)
  with True show ?thesis
    by (auto split: sum.splits raised.splits)
qed

lemma execute_tool_no_base:
  assumes "\<And>n p b. endpoint env n p \<noteq> Inl (Base b)"
  shows "\<exists>d. execute_tool env tool_name parameters = Inr d"
proof (cases "execute_tool env tool_name parameters")
  case (Inl b)
  then show ?thesis using assms by (simp add: execute_tool_Inl)
next
  case (Inr d)
  then show ?thesis by simp
qed




section \<open>The tool-calling loop\<close>

lemma tool_call_try_quiet: "tool_call_try env tc st = (r, st') \<Longrightarrow> quiet_step st st'"
  by (auto simp: tool_call_try_def quiet_step_def yield_def append_history_def Let_def
           split: sum.splits if_splits)

lemma run_tool_call_quiet: "run_tool_call env tc st = (r, st') \<Longrightarrow> quiet_step st st'"
  by (auto simp: run_tool_call_def quiet_step_def yield_def append_history_def Let_def
           split: sum.splits option.splits prod.splits raised.splits
           dest!: tool_call_try_quiet)

lemma run_tool_calls_quiet: "run_tool_calls env tcs st = (r, st') \<Longrightarrow> quiet_step st st'"
proof (induction tcs arbitrary: st)
  case Nil
  then show ?case by (simp add: quiet_step_def)
next
  case (Cons tc tcs)
  obtain r1 st1 where h: "run_tool_call env tc st = (r1, st1)"
    by (cases "run_tool_call env tc st")
  have q1: "quiet_step st st1" using h by (rule run_tool_call_quiet)
  show ?case
  proof (cases r1)
    case None
    with Cons.prems h have "run_tool_calls env tcs st1 = (r, st')" by simp
    then have "quiet_step st1 st'" by (rule Cons.IH)
    with q1 show ?thesis by (simp add: quiet_step_def)
  next
    case (Some e)
    with Cons.prems h have "st' = st1" by simp
    with q1 show ?thesis by simp
  qed
qed


text \<open>
  The loop: \<open>iteration\<close> only grows and stays within the bound, every iteration is one
  completion call, and the loop itself never yields the final warning.
\<close>

lemma tool_loop_props:
  "tool_loop env sp m i st = (r, i', st') \<Longrightarrow> i \<le> m \<Longrightarrow>
     i \<le> i' \<and> i' \<le> m \<and>
     length (model_calls st') = length (model_calls st) + (i' - i) \<and>
     (r \<noteq> None \<longrightarrow> i < i') \<and>
     (MaxIterationsWarning \<notin> set (yielded st) \<longrightarrow> MaxIterationsWarning \<notin> set (yielded st'))"
proof (induction env sp m i st arbitrary: r i' st' rule: tool_loop.induct)
  case (1 env sp m i st)
  let ?messages = "Message_system sp # conversation_history st"
  let ?st1 = "st\<lparr>model_calls := model_calls st @ [?messages]\<rparr>"
  show ?case
  proof (cases "i < m")
    case False
    with "1.prems" show ?thesis by (simp add: tool_loop.simps)
  next
    case True
    show ?thesis
    proof (cases "chat_completions_create env ?messages")
      case (Inl e)
      with True "1.prems" have "r = Some e \<and> i' = i + 1 \<and> st' = ?st1"
        by (auto simp add: tool_loop.simps [of env sp m i st] Let_def)
      with True show ?thesis by simp
    next
      case (Inr mo)
      let ?ctext = "case msg_content mo of None \<Rightarrow> [] | Some c \<Rightarrow> c"
      let ?st2 = "if ?ctext \<noteq> [] then yield (Content ?ctext) ?st1 else ?st1"
      let ?tcs = "case msg_tool_calls mo of None \<Rightarrow> [] | Some l \<Rightarrow> l"
      let ?st2' = "append_history (Message_assistant ?ctext ?tcs) (yield ExecutingTools ?st2)"
      have st2: "model_calls ?st2 = model_calls st @ [?messages]"
        "MaxIterationsWarning \<notin> set (yielded st) \<longrightarrow> MaxIterationsWarning \<notin> set (yielded ?st2)"
        by (simp_all add: yield_def)
      have step: "tool_loop env sp m i st =
          (if ?tcs = [] then (None, i + 1, append_history (Message_assistant ?ctext []) ?st2)
           else (case run_tool_calls env ?tcs ?st2' of
                   (Some e, st3) \<Rightarrow> (Some e, i + 1, st3)
                 | (None, st3) \<Rightarrow> tool_loop env sp m (i + 1) (yield EndTools st3)))"
        using True Inr by (simp add: tool_loop.simps [of env sp m i st] Let_def)
      show ?thesis
      proof (cases "?tcs = []")
        case True
        with step "1.prems" have
          "r = None \<and> i' = i + 1 \<and> st' = append_history (Message_assistant ?ctext []) ?st2"
          by auto
        with \<open>i < m\<close> st2 show ?thesis by (simp add: append_history_def)
      next
        case False
        obtain r3 st3 where run: "run_tool_calls env ?tcs ?st2' = (r3, st3)"
          by (cases "run_tool_calls env ?tcs ?st2'")
        have "quiet_step ?st2' st3"
          using run by (rule run_tool_calls_quiet)
        with st2 have st3: "model_calls st3 = model_calls st @ [?messages]"
          "MaxIterationsWarning \<notin> set (yielded st) \<longrightarrow> MaxIterationsWarning \<notin> set (yielded st3)"
          by (simp_all add: quiet_step_def append_history_def yield_def)
        show ?thesis
        proof (cases r3)
          case (Some e)
          with step False run "1.prems" have "r = Some e \<and> i' = i + 1 \<and> st' = st3"
            by auto
          with \<open>i < m\<close> st3 show ?thesis by simp
        next
          case None
          with step False run "1.prems" have rec:
            "tool_loop env sp m (i + 1) (yield EndTools st3) = (r, i', st')"
            by auto
          have "i + 1 \<le> i' \<and> i' \<le> m \<and>
                length (model_calls st') = length (model_calls (yield EndTools st3)) + (i' - (i + 1)) \<and>
                (r \<noteq> None \<longrightarrow> i + 1 < i') \<and>
                (MaxIterationsWarning \<notin> set (yielded (yield EndTools st3))
                   \<longrightarrow> MaxIterationsWarning \<notin> set (yielded st'))"
            using "1.IH" [OF \<open>i < m\<close> refl refl Inr refl refl refl False run [symmetric] None rec]
                  \<open>i < m\<close>
            by simp
          with st3 show ?thesis by (auto simp: yield_def)
        qed
      qed
    qed
  qed
qed


lemma tool_call_try_no_base:
  assumes "\<And>n p b. endpoint (tools env) n p \<noteq> Inl (Base b)"
  shows "tool_call_try env tc st \<noteq> (Some (Base b), st')"
proof
  assume "tool_call_try env tc st = (Some (Base b), st')"
  then obtain args where "execute_tool (tools env) (tc_name tc) args = Inl b"
    by (auto simp: tool_call_try_def Let_def split: sum.splits if_splits)
  moreover obtain d where "execute_tool (tools env) (tc_name tc) args = Inr d"
    using execute_tool_no_base [OF assms] by blast
  ultimately show False by simp
qed

lemma run_tool_call_no_raise:
  assumes "\<And>d. \<exists>s. json_dumps env d = Inr s"
    and "\<And>n p b. endpoint (tools env) n p \<noteq> Inl (Base b)"
  shows "\<exists>st'. run_tool_call env tc st = (None, st')"
proof (cases "tool_call_try env tc st")
  case (Pair r st1)
  show ?thesis
  proof (cases r)
    case None
    with Pair show ?thesis by (simp add: run_tool_call_def)
  next
    case (Some x)
    then obtain e where x: "x = Exc e"
      using Pair tool_call_try_no_base [OF assms(2), of tc st _ st1] by (cases x) auto
    define error_msg where "error_msg =
      (case e of
         JSONDecodeError m \<Rightarrow> ''Invalid JSON arguments: '' @ str_exn (tools env) e
       | HTTPException code detail \<Rightarrow> ''Tool execution error: '' @ str_exn (tools env) e
       | Exception m \<Rightarrow> ''Tool execution error: '' @ str_exn (tools env) e)"
    obtain s where "json_dumps env [(''success'', JBool False), (''error'', JStr error_msg)] = Inr s"
      using assms(1) by blast
    with Pair Some x show ?thesis
      by (simp add: run_tool_call_def Let_def error_msg_def)
  qed
qed

lemma run_tool_calls_no_raise:
  assumes "\<And>d. \<exists>s. json_dumps env d = Inr s"
    and "\<And>n p b. endpoint (tools env) n p \<noteq> Inl (Base b)"
  shows "\<exists>st'. run_tool_calls env tcs st = (None, st')"
proof (induction tcs arbitrary: st)
  case Nil
  show ?case by simp
next
  case (Cons tc tcs)
  obtain st1 where "run_tool_call env tc st = (None, st1)"
    using run_tool_call_no_raise [OF assms] by blast
  with Cons.IH [of st1] show ?case by simp
qed

text \<open>A model that asks for tools in every response keeps the loop running to the bound.\<close>

lemma tool_loop_always_tools:
  assumes tools: "\<And>msgs. \<exists>mo. chat_completions_create env msgs = Inr mo \<and>
                     msg_tool_calls mo \<noteq> None \<and> msg_tool_calls mo \<noteq> Some []"
    and dumps: "\<And>d. \<exists>s. json_dumps env d = Inr s"
    and quiet: "\<And>n p b. endpoint (tools env) n p \<noteq> Inl (Base b)"
  shows "i \<le> m \<Longrightarrow> \<exists>st'. tool_loop env sp m i st = (None, m, st')"
proof (induction "m - i" arbitrary: i st)
  case 0
  then have "i = m" by simp
  then show ?case by (simp add: tool_loop.simps)
next
  case (Suc k)
  then have lt: "i < m" by simp
  let ?messages = "Message_system sp # conversation_history st"
  let ?st1 = "st\<lparr>model_calls := model_calls st @ [?messages]\<rparr>"
  obtain mo where mo: "chat_completions_create env ?messages = Inr mo"
    and tc: "msg_tool_calls mo \<noteq> None" "msg_tool_calls mo \<noteq> Some []"
    using tools by blast
  let ?ctext = "case msg_content mo of None \<Rightarrow> [] | Some c \<Rightarrow> c"
  let ?st2 = "if ?ctext \<noteq> [] then yield (Content ?ctext) ?st1 else ?st1"
  let ?tcs = "case msg_tool_calls mo of None \<Rightarrow> [] | Some l \<Rightarrow> l"
  let ?st2' = "append_history (Message_assistant ?ctext ?tcs) (yield ExecutingTools ?st2)"
  have ne: "?tcs \<noteq> []" using tc by (cases "msg_tool_calls mo") auto
  obtain st3 where run: "run_tool_calls env ?tcs ?st2' = (None, st3)"
    using run_tool_calls_no_raise [OF dumps quiet] by blast
  have "tool_loop env sp m i st = tool_loop env sp m (i + 1) (yield EndTools st3)"
    using lt mo ne run by (simp add: tool_loop.simps [of env sp m i st] Let_def)
  moreover have "\<exists>st'. tool_loop env sp m (i + 1) (yield EndTools st3) = (None, m, st')"
    using Suc.hyps(1) [of "i + 1"] Suc.hyps(2) lt by simp
  ultimately show ?case by simp
qed

text \<open>
  Claim C1. A run of \<open>_stream_with_tools\<close> makes at most \<open>max_iterations\<close> completion
  calls (five by default). When the model asks for tools in every response, and no
  endpoint raises what \<open>except Exception\<close> does not catch, the run makes exactly that
  many calls and ends with the warning. The warning is yielded exactly when nothing
  raised left the loop and the number of calls reached the bound: this includes the
  run in which the last permitted response asked for no tools.
\<close>

theorem stream_with_tools_iterations:
  assumes "stream_with_tools env context_prompt user_message system_prompt max_iterations history
             = (raised, st)"
  shows "length (model_calls st) \<le> max_iterations \<and>
         (MaxIterationsWarning \<in> set (yielded st) \<longleftrightarrow>
            raised = None \<and> length (model_calls st) = max_iterations) \<and>
         ((\<forall>msgs. \<exists>mo. chat_completions_create env msgs = Inr mo \<and>
                     msg_tool_calls mo \<noteq> None \<and> msg_tool_calls mo \<noteq> Some []) \<and>
          (\<forall>d. \<exists>s. json_dumps env d = Inr s) \<and>
          (\<forall>n p b. endpoint (tools env) n p \<noteq> Inl (Base b)) \<longrightarrow>
            raised = None \<and> length (model_calls st) = max_iterations \<and>
            MaxIterationsWarning \<in> set (yielded st))"
proof -
  let ?sp = "case context_prompt of
               None \<Rightarrow> system_prompt
             | Some cp \<Rightarrow> cp @ [CHR 0x0A, CHR 0x0A] @ ''---'' @ [CHR 0x0A, CHR 0x0A] @ system_prompt"
  let ?st0 = "\<lparr> conversation_history = history @ [Message_user user_message],
                tools_executed = [], yielded = [], model_calls = [] \<rparr>"
  obtain r i' st' where loop: "tool_loop env ?sp max_iterations 0 ?st0 = (r, i', st')"
    by (cases "tool_loop env ?sp max_iterations 0 ?st0")
  have props: "i' \<le> max_iterations" "length (model_calls st') = i'"
    "MaxIterationsWarning \<notin> set (yielded st')"
    using tool_loop_props [OF loop] by simp_all
  have res: "raised = r"
    "st = (if r = None \<and> max_iterations \<le> i' then yield MaxIterationsWarning st' else st')"
    using assms loop by (auto simp: stream_with_tools_def Let_def split: option.splits)
  have calls: "length (model_calls st) = i'"
    using res(2) props(2) by (simp add: yield_def)
  have warn: "MaxIterationsWarning \<in> set (yielded st) \<longleftrightarrow> r = None \<and> max_iterations \<le> i'"
    using res(2) props(3) by (simp add: yield_def)
  have a: "length (model_calls st) \<le> max_iterations"
    using calls props(1) by simp
  have b: "MaxIterationsWarning \<in> set (yielded st) \<longleftrightarrow>
            raised = None \<and> length (model_calls st) = max_iterations"
    using warn res(1) calls props(1) by auto
  have c: "raised = None \<and> length (model_calls st) = max_iterations \<and>
           MaxIterationsWarning \<in> set (yielded st)"
    if h: "(\<forall>msgs. \<exists>mo. chat_completions_create env msgs = Inr mo \<and>
                     msg_tool_calls mo \<noteq> None \<and> msg_tool_calls mo \<noteq> Some []) \<and>
           (\<forall>d. \<exists>s. json_dumps env d = Inr s) \<and>
           (\<forall>n p b. endpoint (tools env) n p \<noteq> Inl (Base b))"
  proof -
    have "\<exists>st''. tool_loop env ?sp max_iterations 0 ?st0 = (None, max_iterations, st'')"
      using h by (intro tool_loop_always_tools) auto
    with loop have "r = None" "i' = max_iterations" by auto
    with res(1) calls b show ?thesis by simp
  qed
  show ?thesis using a b c by blast
qed

theorem stream_with_tools_iterations_witness:
  "fst (stream_with_tools sample_stream_env None ''list my tasks'' ''You are an assistant.'' 5 [])
     = None \<and>
   last (conversation_history
          (snd (stream_with_tools sample_stream_env None ''list my tasks''
                  ''You are an assistant.'' 5 [])))
     = Message_assistant ''All tasks are listed.'' [] \<and>
   MaxIterationsWarning \<in> set (yielded
          (snd (stream_with_tools sample_stream_env None ''list my tasks''
                  ''You are an assistant.'' 5 []))) \<and>
   length (model_calls
          (snd (stream_with_tools sample_looping_env None ''list my tasks''
                  ''You are an assistant.'' 5 []))) = 5 \<and>
   MaxIterationsWarning \<in> set (yielded
          (snd (stream_with_tools sample_looping_env None ''list my tasks''
                  ''You are an assistant.'' 5 [])))"
proof -
  let ?run = "stream_with_tools sample_stream_env None ''list my tasks''
                ''You are an assistant.'' 5 []"
  let ?loop = "stream_with_tools sample_looping_env None ''list my tasks''
                ''You are an assistant.'' 5 []"
  have r1: "fst ?run = None" by code_simp
  have r2: "length (model_calls (snd ?run)) = 5" by code_simp
  have r3: "last (conversation_history (snd ?run)) = Message_assistant ''All tasks are listed.'' []"
    by code_simp
  have w1: "MaxIterationsWarning \<in> set (yielded (snd ?run))"
    using stream_with_tools_iterations [of sample_stream_env None "''list my tasks''"
            "''You are an assistant.''" 5 "[]" "fst ?run" "snd ?run",
            OF surjective_pairing] r1 r2
    by simp
  have h1: "\<forall>msgs. \<exists>mo. chat_completions_create sample_looping_env msgs = Inr mo \<and>
              msg_tool_calls mo \<noteq> None \<and> msg_tool_calls mo \<noteq> Some []"
    by (simp add: sample_looping_env_def)
  have h2: "\<forall>d. \<exists>s. json_dumps sample_looping_env d = Inr s"
    by (simp add: sample_looping_env_def)
  have h3: "\<forall>n p b. endpoint (tools sample_looping_env) n p \<noteq> Inl (Base b)"
    by (simp add: sample_looping_env_def quiet_tool_env_def)
  have w2: "length (model_calls (snd ?loop)) = 5 \<and> MaxIterationsWarning \<in> set (yielded (snd ?loop))"
    using stream_with_tools_iterations [of sample_looping_env None "''list my tasks''"
            "''You are an assistant.''" 5 "[]" "fst ?loop" "snd ?loop",
            OF surjective_pairing] h1 h2 h3
    by simp
  show ?thesis using r1 r3 w1 w2 by simp
qed

section \<open>The context memory\<close>

lemma length_last10: "length (last10 xs) \<le> 10"
  by (simp add: last10_def)

lemma last10_short: "length xs \<le> 10 \<Longrightarrow> last10 xs = xs"
  by (simp add: last10_def)

lemma update_memory_stored:
  "stored_after (update_memory True db project phase task files tasks errs memory merge) db project =
     Some (let cd = \<lparr> current_phase = phase, current_task = task, files_generated = files,
                       tasks_completed = tasks, recent_errors = errs, ai_memory = memory \<rparr>
           in if merge
              then (case db project of
                      None \<Rightarrow> cd
                    | Some existing_data \<Rightarrow> dict_update existing_data (merge_arrays existing_data cd))
              else cd)"
  by (simp add: update_memory_def stored_after_def Let_def)

text \<open>
  Claim C2. For a project with a row, \<open>update_memory\<close> with \<open>merge\<close> set stores file
  and task lists whose elements are those of the old and the new list, without
  duplicates when both are present; the old memory overridden by the new keys; and the
  scalars given, the old ones otherwise. The errors it stores are the last ten of the
  old errors followed by the new ones only when the row and the update both carry
  errors: on a row without errors it stores the errors of the update as they are, however
  many, where the merge as specified keeps the last ten. When the update carries no
  errors the old ones stay. With \<open>merge\<close> unset it stores exactly the fields given.
\<close>

theorem update_memory_merge:
  assumes "db project = Some old"
  shows "\<exists>result.
           stored_after (update_memory True db project phase task files tasks errs memory True)
             db project = Some result \<and>
           elems (files_generated result) = elems (files_generated old) \<union> elems files \<and>
           elems (tasks_completed result) = elems (tasks_completed old) \<union> elems tasks \<and>
           (\<forall>xs ys. files_generated old = Some xs \<and> files = Some ys \<longrightarrow>
              (\<exists>zs. files_generated result = Some zs \<and> distinct zs)) \<and>
           (\<forall>xs ys. tasks_completed old = Some xs \<and> tasks = Some ys \<longrightarrow>
              (\<exists>zs. tasks_completed result = Some zs \<and> distinct zs)) \<and>
           (\<forall>xs ys. recent_errors old = Some xs \<and> errs = Some ys \<longrightarrow>
              recent_errors result = Some (last10 (xs @ ys))) \<and>
           (errs = None \<longrightarrow> recent_errors result = recent_errors old) \<and>
           (\<forall>ys. recent_errors old = None \<and> errs = Some ys \<longrightarrow>
              recent_errors result = Some ys \<and>
              (10 < length ys \<longrightarrow> \<not> spec_merged old
                 \<lparr> current_phase = phase, current_task = task, files_generated = files,
                   tasks_completed = tasks, recent_errors = errs, ai_memory = memory \<rparr>
                 result)) \<and>
           ai_memory result =
             (case (ai_memory old, memory) of
                (Some m, Some m') \<Rightarrow> Some (m ++ m')
              | (Some m, None) \<Rightarrow> Some m
              | (None, x) \<Rightarrow> x) \<and>
           current_phase result = (case phase of None \<Rightarrow> current_phase old | Some v \<Rightarrow> Some v) \<and>
           current_task result = (case task of None \<Rightarrow> current_task old | Some v \<Rightarrow> Some v) \<and>
           stored_after (update_memory True db project phase task files tasks errs memory False)
             db project =
             Some \<lparr> current_phase = phase, current_task = task, files_generated = files,
                    tasks_completed = tasks, recent_errors = errs, ai_memory = memory \<rparr>"
proof -
  let ?cd = "\<lparr> current_phase = phase, current_task = task, files_generated = files,
                tasks_completed = tasks, recent_errors = errs, ai_memory = memory \<rparr>"
  let ?r = "dict_update old (merge_arrays old ?cd)"
  have st: "stored_after (update_memory True db project phase task files tasks errs memory True)
             db project = Some ?r"
    using assms by (simp add: update_memory_stored Let_def)
  have f: "elems (files_generated ?r) = elems (files_generated old) \<union> elems files"
    by (cases files; cases "files_generated old")
       (auto simp: dict_update_def merge_arrays_def elems_def)
  have t: "elems (tasks_completed ?r) = elems (tasks_completed old) \<union> elems tasks"
    by (cases tasks; cases "tasks_completed old")
       (auto simp: dict_update_def merge_arrays_def elems_def)
  have fd: "\<forall>xs ys. files_generated old = Some xs \<and> files = Some ys \<longrightarrow>
              (\<exists>zs. files_generated ?r = Some zs \<and> distinct zs)"
    by (auto simp: dict_update_def merge_arrays_def)
  have td: "\<forall>xs ys. tasks_completed old = Some xs \<and> tasks = Some ys \<longrightarrow>
              (\<exists>zs. tasks_completed ?r = Some zs \<and> distinct zs)"
    by (auto simp: dict_update_def merge_arrays_def)
  have e1: "\<forall>xs ys. recent_errors old = Some xs \<and> errs = Some ys \<longrightarrow>
              recent_errors ?r = Some (last10 (xs @ ys))"
    by (auto simp: dict_update_def merge_arrays_def)
  have e2: "errs = None \<longrightarrow> recent_errors ?r = recent_errors old"
    by (auto simp: dict_update_def merge_arrays_def)
  have e3: "\<forall>ys. recent_errors old = None \<and> errs = Some ys \<longrightarrow>
              recent_errors ?r = Some ys \<and>
              (10 < length ys \<longrightarrow> \<not> spec_merged old ?cd ?r)"
  proof (intro allI impI)
    fix ys
    assume h: "recent_errors old = None \<and> errs = Some ys"
    then have a: "recent_errors ?r = Some ys"
      by (simp add: dict_update_def merge_arrays_def)
    have "\<not> spec_merged old ?cd ?r" if "10 < length ys"
    proof -
      have "length (last10 ([] @ ys)) \<le> 10" by (rule length_last10)
      with that have "ys \<noteq> last10 ([] @ ys)" by auto
      with h a show ?thesis by (simp add: spec_merged_def)
    qed
    with a show "recent_errors ?r = Some ys \<and> (10 < length ys \<longrightarrow> \<not> spec_merged old ?cd ?r)"
      by simp
  qed
  have m: "ai_memory ?r =
             (case (ai_memory old, memory) of
                (Some m, Some m') \<Rightarrow> Some (m ++ m')
              | (Some m, None) \<Rightarrow> Some m
              | (None, x) \<Rightarrow> x)"
    by (cases memory; cases "ai_memory old")
       (auto simp: dict_update_def merge_arrays_def)
  have p: "current_phase ?r = (case phase of None \<Rightarrow> current_phase old | Some v \<Rightarrow> Some v)"
    by (simp add: dict_update_def merge_arrays_def)
  have k: "current_task ?r = (case task of None \<Rightarrow> current_task old | Some v \<Rightarrow> Some v)"
    by (simp add: dict_update_def merge_arrays_def)
  have r: "stored_after (update_memory True db project phase task files tasks errs memory False)
             db project = Some ?cd"
    by (simp add: update_memory_stored Let_def)
  show ?thesis
    by (rule exI [of _ ?r]) (intro conjI st f t fd td e1 e2 e3 m p k r)
qed


theorem update_memory_merge_witness:
  "(\<exists>result.
     stored_after (update_memory True [''p1'' \<mapsto> sample_row] ''p1'' (Some ''coding'') None
                     (Some [''b.py'', ''c.py'']) None (Some eleven_errors)
                     (Some [''last_action'' \<mapsto> JStr ''tool'']) True)
       [''p1'' \<mapsto> sample_row] ''p1'' = Some result \<and>
     elems (files_generated result) = {''a.py'', ''b.py'', ''c.py''} \<and>
     elems (tasks_completed result) = {''t0''} \<and>
     recent_errors result =
       Some [''e02'', ''e03'', ''e04'', ''e05'', ''e06'', ''e07'', ''e08'', ''e09'', ''e10'', ''e11''] \<and>
     ai_memory result = Some [''last_action'' \<mapsto> JStr ''tool'', ''tables'' \<mapsto> JInt 2] \<and>
     current_phase result = Some ''coding'' \<and>
     current_task result = Some ''t1'') \<and>
   (\<exists>result.
     stored_after (update_memory True [''p1'' \<mapsto> phase_only] ''p1'' None None None None
                     (Some eleven_errors) None True)
       [''p1'' \<mapsto> phase_only] ''p1'' = Some result \<and>
     recent_errors result = Some eleven_errors \<and>
     length eleven_errors = 11 \<and>
     \<not> spec_merged phase_only
         \<lparr> current_phase = None, current_task = None, files_generated = None,
           tasks_completed = None, recent_errors = Some eleven_errors, ai_memory = None \<rparr>
         result)"
proof -
  have row: "[''p1'' \<mapsto> sample_row] ''p1'' = Some sample_row" by simp
  obtain result where
    st: "stored_after (update_memory True [''p1'' \<mapsto> sample_row] ''p1'' (Some ''coding'') None
                     (Some [''b.py'', ''c.py'']) None (Some eleven_errors)
                     (Some [''last_action'' \<mapsto> JStr ''tool'']) True)
          [''p1'' \<mapsto> sample_row] ''p1'' = Some result"
    and f: "elems (files_generated result) =
              elems (files_generated sample_row) \<union> elems (Some [''b.py'', ''c.py''])"
    and t: "elems (tasks_completed result) = elems (tasks_completed sample_row) \<union> elems None"
    and e: "\<forall>xs ys. recent_errors sample_row = Some xs \<and> Some eleven_errors = Some ys \<longrightarrow>
              recent_errors result = Some (last10 (xs @ ys))"
    and m: "ai_memory result =
             (case (ai_memory sample_row, Some [''last_action'' \<mapsto> JStr ''tool'']) of
                (Some m, Some m') \<Rightarrow> Some (m ++ m')
              | (Some m, None) \<Rightarrow> Some m
              | (None, x) \<Rightarrow> x)"
    and p: "current_phase result =
              (case Some ''coding'' of None \<Rightarrow> current_phase sample_row | Some v \<Rightarrow> Some v)"
    and k: "current_task result =
              (case None of None \<Rightarrow> current_task sample_row | Some v \<Rightarrow> Some v)"
    using update_memory_merge [where db = "[''p1'' \<mapsto> sample_row]" and project = "''p1''"
            and old = sample_row and phase = "Some ''coding''" and task = None
            and files = "Some [''b.py'', ''c.py'']" and tasks = None
            and errs = "Some eleven_errors"
            and memory = "Some [''last_action'' \<mapsto> JStr ''tool'']", OF row]
    by (elim exE conjE)
  have f': "elems (files_generated result) = {''a.py'', ''b.py'', ''c.py''}"
    using f by (auto simp: elems_def sample_row_def)
  have t': "elems (tasks_completed result) = {''t0''}"
    using t by (simp add: elems_def sample_row_def)
  have "recent_errors result = Some (last10 ([''d1'', ''d2'', ''d3''] @ eleven_errors))"
    using e by (simp add: sample_row_def)
  then have e': "recent_errors result =
       Some [''e02'', ''e03'', ''e04'', ''e05'', ''e06'', ''e07'', ''e08'', ''e09'', ''e10'', ''e11'']"
    by (simp add: last10_def eleven_errors_def)
  have m': "ai_memory result = Some [''last_action'' \<mapsto> JStr ''tool'', ''tables'' \<mapsto> JInt 2]"
    using m by (auto simp: sample_row_def map_add_def fun_eq_iff)
  have p': "current_phase result = Some ''coding''" using p by simp
  have k': "current_task result = Some ''t1''" using k by (simp add: sample_row_def)
  have first: "\<exists>result.
     stored_after (update_memory True [''p1'' \<mapsto> sample_row] ''p1'' (Some ''coding'') None
                     (Some [''b.py'', ''c.py'']) None (Some eleven_errors)
                     (Some [''last_action'' \<mapsto> JStr ''tool'']) True)
       [''p1'' \<mapsto> sample_row] ''p1'' = Some result \<and>
     elems (files_generated result) = {''a.py'', ''b.py'', ''c.py''} \<and>
     elems (tasks_completed result) = {''t0''} \<and>
     recent_errors result =
       Some [''e02'', ''e03'', ''e04'', ''e05'', ''e06'', ''e07'', ''e08'', ''e09'', ''e10'', ''e11''] \<and>
     ai_memory result = Some [''last_action'' \<mapsto> JStr ''tool'', ''tables'' \<mapsto> JInt 2] \<and>
     current_phase result = Some ''coding'' \<and>
     current_task result = Some ''t1''"
    by (rule exI [of _ result]) (intro conjI st f' t' e' m' p' k')
  have row2: "[''p1'' \<mapsto> phase_only] ''p1'' = Some phase_only" by simp
  obtain result2 where
    st2: "stored_after (update_memory True [''p1'' \<mapsto> phase_only] ''p1'' None None None None
                     (Some eleven_errors) None True)
          [''p1'' \<mapsto> phase_only] ''p1'' = Some result2"
    and g: "\<forall>ys. recent_errors phase_only = None \<and> Some eleven_errors = Some ys \<longrightarrow>
              recent_errors result2 = Some ys \<and>
              (10 < length ys \<longrightarrow> \<not> spec_merged phase_only
                 \<lparr> current_phase = None, current_task = None, files_generated = None,
                   tasks_completed = None, recent_errors = Some eleven_errors, ai_memory = None \<rparr>
                 result2)"
    using update_memory_merge [where db = "[''p1'' \<mapsto> phase_only]" and project = "''p1''"
            and old = phase_only and phase = None and task = None
            and files = None and tasks = None
            and errs = "Some eleven_errors" and memory = None, OF row2]
    by (elim exE conjE)
  have len: "length eleven_errors = 11" by (simp add: eleven_errors_def)
  have "recent_errors phase_only = None \<and> Some eleven_errors = Some eleven_errors"
    by (simp add: phase_only_def)
  then have g': "recent_errors result2 = Some eleven_errors \<and>
              (10 < length eleven_errors \<longrightarrow> \<not> spec_merged phase_only
                 \<lparr> current_phase = None, current_task = None, files_generated = None,
                   tasks_completed = None, recent_errors = Some eleven_errors, ai_memory = None \<rparr>
                 result2)"
    by (rule g [rule_format])
  then have g1: "recent_errors result2 = Some eleven_errors" by (rule conjunct1)
  have g2: "\<not> spec_merged phase_only
                 \<lparr> current_phase = None, current_task = None, files_generated = None,
                   tasks_completed = None, recent_errors = Some eleven_errors, ai_memory = None \<rparr>
                 result2"
    using g' len by simp
  have second: "\<exists>result.
     stored_after (update_memory True [''p1'' \<mapsto> phase_only] ''p1'' None None None None
                     (Some eleven_errors) None True)
       [''p1'' \<mapsto> phase_only] ''p1'' = Some result \<and>
     recent_errors result = Some eleven_errors \<and>
     length eleven_errors = 11 \<and>
     \<not> spec_merged phase_only
         \<lparr> current_phase = None, current_task = None, files_generated = None,
           tasks_completed = None, recent_errors = Some eleven_errors, ai_memory = None \<rparr>
         result"
    by (rule exI [of _ result2]) (intro conjI st2 g1 len g2)
  show ?thesis
    by (intro conjI first second)
qed

text \<open>
  Claim C3. The stored list of recent errors can hold more than ten entries: a first
  call on a project without a row stores the eleven errors it is given, and so does a
  call on a row without errors and a call with \<open>merge\<close> unset.
\<close>

theorem update_memory_stores_eleven_errors:
  "map_option recent_errors
     (stored_after (update_memory True Map.empty ''p1'' None None None None
                      (Some eleven_errors) None True) Map.empty ''p1'')
     = Some (Some eleven_errors) \<and>
   map_option recent_errors
     (stored_after (update_memory True [''p1'' \<mapsto> phase_only] ''p1'' None None None None
                      (Some eleven_errors) None True) [''p1'' \<mapsto> phase_only] ''p1'')
     = Some (Some eleven_errors) \<and>
   map_option recent_errors
     (stored_after (update_memory True [''p1'' \<mapsto> sample_row] ''p1'' None None None None
                      (Some eleven_errors) None False) [''p1'' \<mapsto> sample_row] ''p1'')
     = Some (Some eleven_errors) \<and>
   length eleven_errors = 11"
  by (simp add: update_memory_stored Let_def dict_update_def merge_arrays_def phase_only_def
        eleven_errors_def)

section \<open>Port allocation\<close>

lemma allocate_port_Inr:
  "allocate_port bs = Inr p \<longleftrightarrow>
     BASE_PORT \<le> p \<and> p < BASE_PORT + MAX_BACKENDS \<and> p \<notin> used_ports bs \<and>
     (\<forall>q. BASE_PORT \<le> q \<and> q < p \<longrightarrow> q \<in> used_ports bs)"
proof
  assume "allocate_port bs = Inr p"
  then have "find (\<lambda>c. c \<notin> used_ports bs) (map (\<lambda>i. BASE_PORT + i) [0..<MAX_BACKENDS]) = Some p"
    by (simp add: allocate_port_def split: option.splits)
  then obtain i where i: "i < MAX_BACKENDS" "p = BASE_PORT + i" "p \<notin> used_ports bs"
    "\<forall>j<i. BASE_PORT + j \<in> used_ports bs"
    by (auto simp: find_Some_iff)
  have "q \<in> used_ports bs" if "BASE_PORT \<le> q \<and> q < p" for q
  proof -
    from that i(2) have "q - BASE_PORT < i" "q = BASE_PORT + (q - BASE_PORT)" by auto
    with i(4) show ?thesis by metis
  qed
  with i show "BASE_PORT \<le> p \<and> p < BASE_PORT + MAX_BACKENDS \<and> p \<notin> used_ports bs \<and>
     (\<forall>q. BASE_PORT \<le> q \<and> q < p \<longrightarrow> q \<in> used_ports bs)"
    by simp
next
  assume h: "BASE_PORT \<le> p \<and> p < BASE_PORT + MAX_BACKENDS \<and> p \<notin> used_ports bs \<and>
     (\<forall>q. BASE_PORT \<le> q \<and> q < p \<longrightarrow> q \<in> used_ports bs)"
  define i where "i = p - BASE_PORT"
  have "i < MAX_BACKENDS" "p = BASE_PORT + i" using h by (auto simp: i_def)
  moreover have "\<forall>j<i. BASE_PORT + j \<in> used_ports bs" using h by (auto simp: i_def)
  ultimately have
    "find (\<lambda>c. c \<notin> used_ports bs) (map (\<lambda>i. BASE_PORT + i) [0..<MAX_BACKENDS]) = Some p"
    using h by (auto simp: find_Some_iff intro!: exI [of _ i])
  then show "allocate_port bs = Inr p"
    by (simp add: allocate_port_def)
qed

lemma candidate_ports:
  "set (map (\<lambda>i. BASE_PORT + i) [0..<MAX_BACKENDS]) = {BASE_PORT ..< BASE_PORT + MAX_BACKENDS}"
  by (simp add: add.commute)

lemma allocate_port_Inl:
  "(\<exists>e. allocate_port bs = Inl e) \<longleftrightarrow>
     (\<forall>q. BASE_PORT \<le> q \<and> q < BASE_PORT + MAX_BACKENDS \<longrightarrow> q \<in> used_ports bs)"
proof -
  have "(\<exists>e. allocate_port bs = Inl e) \<longleftrightarrow>
        find (\<lambda>c. c \<notin> used_ports bs) (map (\<lambda>i. BASE_PORT + i) [0..<MAX_BACKENDS]) = None"
    by (simp add: allocate_port_def split: option.splits)
  also have "\<dots> \<longleftrightarrow>
     (\<forall>q \<in> set (map (\<lambda>i. BASE_PORT + i) [0..<MAX_BACKENDS]). q \<in> used_ports bs)"
    unfolding find_None_iff by blast
  also have "\<dots> \<longleftrightarrow>
     (\<forall>q. BASE_PORT \<le> q \<and> q < BASE_PORT + MAX_BACKENDS \<longrightarrow> q \<in> used_ports bs)"
    unfolding candidate_ports by auto
  finally show ?thesis .
qed

subsection \<open>The dictionary operations\<close>

lemma map_of_None_keys: "map_of d k = None \<longleftrightarrow> k \<notin> fst ` set d"
  by (simp add: map_of_eq_None_iff)

lemma dict_assign_fresh: "k \<notin> fst ` set d \<Longrightarrow> dict_assign k v d = d @ [(k, v)]"
  by (induction d) auto

lemma ports_distinct_del: "ports_distinct bs \<Longrightarrow> ports_distinct (dict_del k bs)"
  by (simp add: ports_distinct_def dict_del_def distinct_map_filter)

lemma ports_distinct_add:
  assumes "ports_distinct bs" "k \<notin> fst ` set bs" "port info \<notin> used_ports bs"
  shows "ports_distinct (dict_assign k info bs)"
  using assms by (auto simp: ports_distinct_def dict_assign_fresh used_ports_def)

lemma start_backend_distinct:
  assumes "ports_distinct bs"
  shows "ports_distinct (snd (start_backend env bs project))"
proof (cases "map_of bs project")
  case (Some info)
  with assms show ?thesis by (simp add: start_backend_def)
next
  case None
  then have fresh: "project \<notin> fst ` set bs" by (simp add: map_of_None_keys)
  show ?thesis
  proof (cases "allocate_port bs")
    case (Inl e)
    with None assms show ?thesis by (simp add: start_backend_def)
  next
    case (Inr p)
    then have free: "p \<notin> used_ports bs" by (simp add: allocate_port_Inr)
    show ?thesis
    proof (cases "start_backend_process env project p")
      case (Inl e)
      with None Inr assms show ?thesis by (simp add: start_backend_def)
    next
      case (Inr k)
      have "ports_distinct (dict_assign project
              \<lparr> pid = k, port = p, status = ''running'', started_at = time_now env,
                workspace_path = backend_workspace project \<rparr> bs)"
        using assms fresh free by (intro ports_distinct_add) simp_all
      with None \<open>allocate_port bs = Inr p\<close> Inr assms show ?thesis
        by (simp add: start_backend_def)
    qed
  qed
qed

lemma stop_backend_process_distinct:
  "ports_distinct bs \<Longrightarrow> ports_distinct (snd (stop_backend_process env bs project))"
  by (auto simp: stop_backend_process_def ports_distinct_del split: option.splits)

lemma stop_all_distinct:
  "ports_distinct bs \<Longrightarrow>
   ports_distinct (fold (\<lambda>project bs. snd (stop_backend_process env bs project)) ks bs)"
  by (induction ks arbitrary: bs) (simp_all add: stop_backend_process_distinct)

lemma manager_step_distinct:
  assumes "ports_distinct bs"
  shows "ports_distinct (manager_step bs ec)"
proof (cases ec)
  case (Pair env call)
  show ?thesis
  proof (cases call)
    case (Start project)
    with Pair assms show ?thesis by (simp add: manager_step_def start_backend_distinct)
  next
    case (Stop project)
    with Pair assms stop_backend_process_distinct [OF assms, of env project] show ?thesis
      by (auto simp: manager_step_def stop_backend_def split: option.splits prod.splits)
  next
    case (Restart project)
    with Pair assms stop_backend_process_distinct [OF assms, of env project] show ?thesis
      by (auto simp: manager_step_def restart_backend_def start_backend_distinct
               split: option.splits)
  next
    case (Status project)
    with Pair assms show ?thesis
      by (auto simp: manager_step_def get_backend_status_def ports_distinct_del
               split: option.splits)
  next
    case StopAll
    with Pair assms show ?thesis
      by (simp add: manager_step_def stop_all_backends_def stop_all_distinct)
  qed
qed

lemma foldl_manager_step_distinct:
  "ports_distinct bs \<Longrightarrow> ports_distinct (foldl manager_step bs calls)"
  by (induction calls arbitrary: bs) (simp_all add: manager_step_distinct)

lemma manager_run_distinct: "ports_distinct (manager_run calls)"
  unfolding manager_run_def
  by (rule foldl_manager_step_distinct) (simp add: ports_distinct_def)


subsection \<open>Three starts, a stop and a fourth start\<close>

lemma start_backend_fresh:
  assumes "host_ready env" "project \<notin> fst ` set bs" "allocate_port bs = Inr p"
  shows "\<exists>info. port info = p \<and> started_port (start_backend env bs project) = Some p \<and>
                snd (start_backend env bs project) = bs @ [(project, info)]"
proof -
  obtain k where k: "start_backend_process env project p = Inr k"
    using assms(1) unfolding host_ready_def by blast
  have ok: "workspace_exists env project" "main_py_exists env project"
    using assms(1) by (simp_all add: host_ready_def)
  have none: "map_of bs project = None"
    using assms(2) by (simp add: map_of_None_keys)
  let ?info = "\<lparr> pid = k, port = p, status = ''running'', started_at = time_now env,
                 workspace_path = backend_workspace project \<rparr>"
  have "start_backend env bs project =
          (Inr \<lparr> sr_message = ''Backend started successfully'', sr_port = p, sr_pid = k \<rparr>,
           bs @ [(project, ?info)])"
    using none ok assms(3) k dict_assign_fresh [OF assms(2)]
    by (simp add: start_backend_def)
  then have "port ?info = p \<and> started_port (start_backend env bs project) = Some p \<and>
             snd (start_backend env bs project) = bs @ [(project, ?info)]"
    by (simp add: started_port_def)
  then show ?thesis by blast
qed

lemma port_scenario:
  assumes ready: "host_ready env" and d: "distinct [p1, p2, p3, p4]"
  shows "started_port (start_backend env [] p1) = Some BASE_PORT \<and>
         started_port (start_backend env (snd (start_backend env [] p1)) p2)
           = Some (BASE_PORT + 1) \<and>
         started_port
           (start_backend env (snd (start_backend env (snd (start_backend env [] p1)) p2)) p3)
           = Some (BASE_PORT + 2) \<and>
         started_port
           (start_backend env
              (snd (stop_backend env
                 (snd (start_backend env
                    (snd (start_backend env (snd (start_backend env [] p1)) p2)) p3)) p2)) p4)
           = Some (BASE_PORT + 1)"
proof -
  have a1: "allocate_port [] = Inr BASE_PORT"
    by (simp add: allocate_port_Inr used_ports_def MAX_BACKENDS_def)
  obtain i1 where i1: "port i1 = BASE_PORT"
    "started_port (start_backend env [] p1) = Some BASE_PORT"
    "snd (start_backend env [] p1) = [(p1, i1)]"
    using start_backend_fresh [OF ready _ a1, of p1] by auto
  have a2: "allocate_port [(p1, i1)] = Inr (BASE_PORT + 1)"
    using i1(1) by (auto simp: allocate_port_Inr used_ports_def MAX_BACKENDS_def)
  obtain i2 where i2: "port i2 = BASE_PORT + 1"
    "started_port (start_backend env [(p1, i1)] p2) = Some (BASE_PORT + 1)"
    "snd (start_backend env [(p1, i1)] p2) = [(p1, i1), (p2, i2)]"
    using start_backend_fresh [OF ready _ a2, of p2] d by auto
  have a3: "allocate_port [(p1, i1), (p2, i2)] = Inr (BASE_PORT + 2)"
    using i1(1) i2(1) by (auto simp: allocate_port_Inr used_ports_def MAX_BACKENDS_def)
  obtain i3 where i3: "port i3 = BASE_PORT + 2"
    "started_port (start_backend env [(p1, i1), (p2, i2)] p3) = Some (BASE_PORT + 2)"
    "snd (start_backend env [(p1, i1), (p2, i2)] p3) = [(p1, i1), (p2, i2), (p3, i3)]"
    using start_backend_fresh [OF ready _ a3, of p3] d by auto
  have s: "snd (stop_backend env [(p1, i1), (p2, i2), (p3, i3)] p2) = [(p1, i1), (p3, i3)]"
    using d by (auto simp: stop_backend_def stop_backend_process_def dict_del_def)
  have a4: "allocate_port [(p1, i1), (p3, i3)] = Inr (BASE_PORT + 1)"
    using i1(1) i3(1) by (auto simp: allocate_port_Inr used_ports_def MAX_BACKENDS_def)
  have i4: "started_port (start_backend env [(p1, i1), (p3, i3)] p4) = Some (BASE_PORT + 1)"
    using start_backend_fresh [OF ready _ a4, of p4] d by auto
  show ?thesis
    using i1 i2 i3 s i4 by simp
qed

text \<open>
  Claim C4. \<open>allocate_port\<close> returns the smallest port of the range
  \<open>[BASE_PORT, BASE_PORT + MAX_BACKENDS)\<close> that no entry of the dictionary holds, and
  raises exactly when every port of the range is held. On a host where every start
  succeeds, three starts for distinct projects get the ports \<open>BASE_PORT\<close>,
  \<open>BASE_PORT + 1\<close> and \<open>BASE_PORT + 2\<close>, and after the second is stopped a fourth start
  gets \<open>BASE_PORT + 1\<close>. After any sequence of start, stop, restart, status and
  stop-all calls the ports in the dictionary are pairwise distinct.
\<close>

theorem allocate_port_lowest_free:
  "(allocate_port bs = Inr p \<longleftrightarrow>
      BASE_PORT \<le> p \<and> p < BASE_PORT + MAX_BACKENDS \<and> p \<notin> used_ports bs \<and>
      (\<forall>q. BASE_PORT \<le> q \<and> q < p \<longrightarrow> q \<in> used_ports bs)) \<and>
   ((\<exists>e. allocate_port bs = Inl e) \<longleftrightarrow>
      (\<forall>q. BASE_PORT \<le> q \<and> q < BASE_PORT + MAX_BACKENDS \<longrightarrow> q \<in> used_ports bs)) \<and>
   (host_ready env \<and> distinct [p1, p2, p3, p4] \<longrightarrow>
      started_port (start_backend env [] p1) = Some BASE_PORT \<and>
      started_port (start_backend env (snd (start_backend env [] p1)) p2)
        = Some (BASE_PORT + 1) \<and>
      started_port
        (start_backend env (snd (start_backend env (snd (start_backend env [] p1)) p2)) p3)
        = Some (BASE_PORT + 2) \<and>
      started_port
        (start_backend env
           (snd (stop_backend env
              (snd (start_backend env
                 (snd (start_backend env (snd (start_backend env [] p1)) p2)) p3)) p2)) p4)
        = Some (BASE_PORT + 1)) \<and>
   distinct (map (\<lambda>(project, info). port info) (manager_run calls))"
proof -
  have "distinct (map (\<lambda>(project, info). port info) (manager_run calls))"
    using manager_run_distinct [of calls] by (simp add: ports_distinct_def)
  then show ?thesis
    using allocate_port_Inr [of bs p] allocate_port_Inl [of bs] port_scenario [of env p1 p2 p3 p4]
    by blast
qed

theorem allocate_port_lowest_free_witness:
  "allocate_port [] = Inr 8001 \<and>
   started_port (start_backend sample_manager_env [] ''shop'') = Some 8001 \<and>
   started_port
     (start_backend sample_manager_env
        (snd (stop_backend sample_manager_env
           (snd (start_backend sample_manager_env
              (snd (start_backend sample_manager_env
                 (snd (start_backend sample_manager_env [] ''shop'')) ''blog'')) ''wiki''))
           ''blog'')) ''todo'')
     = Some 8002 \<and>
   distinct (map (\<lambda>(project, info). port info)
     (manager_run [(sample_manager_env, Start ''shop''), (sample_manager_env, Start ''blog''),
                   (sample_manager_env, Stop ''shop''), (sample_manager_env, Restart ''blog'')]))"
proof -
  note t = allocate_port_lowest_free [of "[]" 8001 sample_manager_env "''shop''" "''blog''"
             "''wiki''" "''todo''"
             "[(sample_manager_env, Start ''shop''), (sample_manager_env, Start ''blog''),
               (sample_manager_env, Stop ''shop''), (sample_manager_env, Restart ''blog'')]"]
  have free: "BASE_PORT \<le> 8001 \<and> 8001 < BASE_PORT + MAX_BACKENDS \<and> 8001 \<notin> used_ports [] \<and>
      (\<forall>q. BASE_PORT \<le> q \<and> q < 8001 \<longrightarrow> q \<in> used_ports [])"
    by (simp add: BASE_PORT_def MAX_BACKENDS_def used_ports_def)
  have ready: "host_ready sample_manager_env \<and> distinct [''shop'', ''blog'', ''wiki'', ''todo'']"
    by (simp add: host_ready_def sample_manager_env_def)
  have a: "allocate_port [] = Inr 8001" using t free by blast
  have b: "started_port (start_backend sample_manager_env [] ''shop'') = Some BASE_PORT"
    using t ready by blast
  have c: "started_port
     (start_backend sample_manager_env
        (snd (stop_backend sample_manager_env
           (snd (start_backend sample_manager_env
              (snd (start_backend sample_manager_env
                 (snd (start_backend sample_manager_env [] ''shop'')) ''blog'')) ''wiki''))
           ''blog'')) ''todo'')
     = Some (BASE_PORT + 1)"
    using t ready by blast
  have d: "distinct (map (\<lambda>(project, info). port info)
     (manager_run [(sample_manager_env, Start ''shop''), (sample_manager_env, Start ''blog''),
                   (sample_manager_env, Stop ''shop''), (sample_manager_env, Restart ''blog'')]))"
    using t by blast
  show ?thesis using a b c d by (simp add: BASE_PORT_def)
qed

section \<open>Staging the generated files\<close>





























section \<open>Serving built assets\<close>

text \<open>
  Claim C10. \<open>serve_preview_assets\<close> answers 404 for a project without a cached
  build and for a path that does not exist or is not a regular file, 403 for an
  existing file whose resolved path does not have the resolved assets directory as a
  string prefix, and otherwise serves the file with the media type of its extension.
  The prefix test is on strings: a file is served exactly when its resolved path begins
  with the characters of the resolved assets directory, which a file of a sibling
  directory such as \<open>assets-old\<close> does as well.
\<close>

theorem serve_preview_assets_cases:
  "(BUILD_CACHE project = None \<longrightarrow>
      serve_preview_assets BUILD_CACHE fs project filepath
        = Inl (HTTPException 404 ''Preview not built'')) \<and>
   (\<forall>dist_dir. BUILD_CACHE project = Some dist_dir \<and>
      (\<not> fs_exists fs (path_join (path_join dist_dir ''assets'') filepath) \<or>
       \<not> fs_is_file fs (path_join (path_join dist_dir ''assets'') filepath)) \<longrightarrow>
      serve_preview_assets BUILD_CACHE fs project filepath
        = Inl (HTTPException 404 ''Asset not found'')) \<and>
   (\<forall>dist_dir. BUILD_CACHE project = Some dist_dir \<and>
      fs_exists fs (path_join (path_join dist_dir ''assets'') filepath) \<and>
      fs_is_file fs (path_join (path_join dist_dir ''assets'') filepath) \<longrightarrow>
      serve_preview_assets BUILD_CACHE fs project filepath =
        (if startswith (fs_resolve fs (path_join (path_join dist_dir ''assets'') filepath))
                       (fs_resolve fs (path_join dist_dir ''assets''))
         then Inr \<lparr> fr_path = path_join (path_join dist_dir ''assets'') filepath,
                    fr_media_type = media_type_of filepath \<rparr>
         else Inl (HTTPException 403 ''Invalid asset path''))) \<and>
   media_type_of filepath =
     (if endswith filepath ''.js'' then ''application/javascript''
      else if endswith filepath ''.css'' then ''text/css''
      else if endswith filepath ''.json'' then ''application/json''
      else if endswith filepath ''.svg'' then ''image/svg+xml''
      else ''application/octet-stream'')"
  by (auto simp: serve_preview_assets_def Let_def media_type_of_def)

theorem serve_preview_assets_cases_witness:
  "serve_preview_assets [''p1'' \<mapsto> ''/builds/p1/dist''] sample_fs ''p1'' ''../assets-old/keys.json''
     = Inr \<lparr> fr_path = ''/builds/p1/dist/assets/../assets-old/keys.json'',
             fr_media_type = ''application/json'' \<rparr> \<and>
   fs_resolve sample_fs ''/builds/p1/dist/assets/../assets-old/keys.json''
     = ''/builds/p1/dist/assets-old/keys.json'' \<and>
   \<not> inside_dir (fs_resolve sample_fs ''/builds/p1/dist/assets'')
        (fs_resolve sample_fs ''/builds/p1/dist/assets/../assets-old/keys.json'') \<and>
   serve_preview_assets [''p1'' \<mapsto> ''/builds/p1/dist''] sample_fs ''p2'' ''index.js''
     = Inl (HTTPException 404 ''Preview not built'')"
proof -
  let ?cache = "[''p1'' \<mapsto> ''/builds/p1/dist'']"
  note t1 = serve_preview_assets_cases [of ?cache "''p1''" sample_fs "''../assets-old/keys.json''"]
  note t2 = serve_preview_assets_cases [of ?cache "''p2''" sample_fs "''index.js''"]
  have j1: "path_join ''/builds/p1/dist'' ''assets'' = ''/builds/p1/dist/assets''"
    by (simp add: path_join_def)
  have j2: "path_join ''/builds/p1/dist/assets'' ''../assets-old/keys.json''
              = ''/builds/p1/dist/assets/../assets-old/keys.json''"
    by (simp add: path_join_def)
  have c: "?cache ''p1'' = Some ''/builds/p1/dist''" by simp
  have e: "fs_exists sample_fs ''/builds/p1/dist/assets/../assets-old/keys.json''"
    "fs_is_file sample_fs ''/builds/p1/dist/assets/../assets-old/keys.json''"
    by (simp_all add: sample_fs_def)
  have r1: "fs_resolve sample_fs ''/builds/p1/dist/assets/../assets-old/keys.json''
              = ''/builds/p1/dist/assets-old/keys.json''"
    by (simp add: sample_fs_def)
  have r2: "fs_resolve sample_fs ''/builds/p1/dist/assets'' = ''/builds/p1/dist/assets''"
    by (simp add: sample_fs_def)
  have pre: "startswith ''/builds/p1/dist/assets-old/keys.json'' ''/builds/p1/dist/assets''"
    by simp
  have t1c: "\<forall>dist_dir. ?cache ''p1'' = Some dist_dir \<and>
      fs_exists sample_fs (path_join (path_join dist_dir ''assets'') ''../assets-old/keys.json'') \<and>
      fs_is_file sample_fs (path_join (path_join dist_dir ''assets'') ''../assets-old/keys.json'') \<longrightarrow>
      serve_preview_assets ?cache sample_fs ''p1'' ''../assets-old/keys.json'' =
        (if startswith
              (fs_resolve sample_fs
                 (path_join (path_join dist_dir ''assets'') ''../assets-old/keys.json''))
              (fs_resolve sample_fs (path_join dist_dir ''assets''))
         then Inr \<lparr> fr_path = path_join (path_join dist_dir ''assets'')
                                ''../assets-old/keys.json'',
                    fr_media_type = media_type_of ''../assets-old/keys.json'' \<rparr>
         else Inl (HTTPException 403 ''Invalid asset path''))"
    using t1 by (elim conjE)
  have prem: "?cache ''p1'' = Some ''/builds/p1/dist'' \<and>
      fs_exists sample_fs
        (path_join (path_join ''/builds/p1/dist'' ''assets'') ''../assets-old/keys.json'') \<and>
      fs_is_file sample_fs
        (path_join (path_join ''/builds/p1/dist'' ''assets'') ''../assets-old/keys.json'')"
    unfolding j1 j2 by (intro conjI c e)
  have "serve_preview_assets ?cache sample_fs ''p1'' ''../assets-old/keys.json'' =
        (if startswith
              (fs_resolve sample_fs
                 (path_join (path_join ''/builds/p1/dist'' ''assets'') ''../assets-old/keys.json''))
              (fs_resolve sample_fs (path_join ''/builds/p1/dist'' ''assets''))
         then Inr \<lparr> fr_path = path_join (path_join ''/builds/p1/dist'' ''assets'')
                                ''../assets-old/keys.json'',
                    fr_media_type = media_type_of ''../assets-old/keys.json'' \<rparr>
         else Inl (HTTPException 403 ''Invalid asset path''))"
    by (rule t1c [rule_format, OF prem])
  then have a: "serve_preview_assets ?cache sample_fs ''p1'' ''../assets-old/keys.json''
     = Inr \<lparr> fr_path = ''/builds/p1/dist/assets/../assets-old/keys.json'',
             fr_media_type = ''application/json'' \<rparr>"
    unfolding j1 j2 r1 r2 using pre by (simp add: media_type_of_def endswith_def)
  have b: "\<not> inside_dir (fs_resolve sample_fs ''/builds/p1/dist/assets'')
        (fs_resolve sample_fs ''/builds/p1/dist/assets/../assets-old/keys.json'')"
    unfolding r1 r2 by (simp add: inside_dir_def)
  have n: "?cache ''p2'' = None" by simp
  have "?cache ''p2'' = None \<longrightarrow>
          serve_preview_assets ?cache sample_fs ''p2'' ''index.js''
            = Inl (HTTPException 404 ''Preview not built'')"
    using t2 by (elim conjE)
  then have d: "serve_preview_assets ?cache sample_fs ''p2'' ''index.js''
     = Inl (HTTPException 404 ''Preview not built'')"
    using n by (rule mp)
  show ?thesis by (intro conjI a r1 b d)
qed

section \<open>The Python manifest\<close>

subsection \<open>Lines\<close>













subsection \<open>Scanning the names of a line\<close>

lemma char_classes [simp]:
  "\<not> is_quote CHR '',''" "\<not> is_quote CHR '' ''" "\<not> is_quote CHR ''[''" "\<not> is_quote CHR '']''"
  "\<not> name_char CHR '',''" "\<not> name_char CHR '' ''" "\<not> name_char CHR ''[''" "\<not> name_char CHR '']''"
  "is_quote (CHR 0x22)" "\<not> name_char (CHR 0x22)" "\<not> pkg_char (CHR 0x22)" "\<not> pkg_char CHR '',''"
  "pkg_char CHR '']''" "\<not> is_space CHR ''a''" "\<not> is_space CHR '']''" "\<not> is_space CHR ''[''"
  "is_space CHR '' ''"
  by (simp_all add: is_quote_def name_char_def pkg_char_def is_space_def Let_def)












subsection \<open>The rewritten line read again\<close>











subsection \<open>The manifest rewritten\<close>





end
